theory Spec2Isabelle
  imports Complex_Main
begin

section \<open>Python strings and numbers\<close>

text \<open>
  The two scripts \<^verbatim>\<open>fix_relab_mpa4.py\<close> and \<^verbatim>\<open>sgb_to_gtdb_profile.py\<close> work on
  text lines. A Python \<^verbatim>\<open>str\<close> is modelled as a \<open>string\<close> (the profiles are ASCII, where
  a character and a code point coincide). A Python \<^verbatim>\<open>float\<close> is modelled as a \<open>real\<close>:
  the arithmetic of the model is exact, so statements about sums and quotients are statements
  about the formulas of the code, not about binary64 rounding. The concrete profiles below
  use values on which each operation of the run is exact in binary64 as well, so that for
  them the values of the model are the values of the script.
\<close>

abbreviation TAB :: string where
  "TAB \<equiv> [CHR 0x09]"

text \<open>\<^verbatim>\<open>s.startswith(p)\<close>\<close>

fun startswith :: "string \<Rightarrow> string \<Rightarrow> bool" where
  "startswith s [] = True"
| "startswith [] (p # ps) = False"
| "startswith (x # xs) (p # ps) = (x = p \<and> startswith xs ps)"

text \<open>\<^verbatim>\<open>sub in s\<close>\<close>

fun contains :: "string \<Rightarrow> string \<Rightarrow> bool" where
  "contains [] sub = (sub = [])"
| "contains (x # xs) sub = (startswith (x # xs) sub \<or> contains xs sub)"

text \<open>
  \<^verbatim>\<open>s.replace(old, new)\<close>: every occurrence of \<open>old\<close>, leftmost first, without overlaps.
\<close>

function replace :: "string \<Rightarrow> string \<Rightarrow> string \<Rightarrow> string" where
  "replace [] old new = (if old = [] then new else [])"
| "replace (x # xs) old new =
     (if old = [] then new @ x # replace xs old new
      else if startswith (x # xs) old then new @ replace (drop (length old) (x # xs)) old new
      else x # replace xs old new)"
  by pat_completeness auto
termination
  by (relation "measure (\<lambda>(s, old, new). length s)") auto

text \<open>
  \<^verbatim>\<open>str.isspace\<close> on the code points below 256, and \<^verbatim>\<open>s.strip()\<close>.
\<close>

definition isspace :: "char \<Rightarrow> bool" where
  "isspace c = (of_char c \<in> {9, 10, 11, 12, 13, 28, 29, 30, 31, 32, 133, 160 :: nat})"

definition strip :: "string \<Rightarrow> string" where
  "strip s = rev (dropWhile isspace (rev (dropWhile isspace s)))"

text \<open>\<^verbatim>\<open>s.split(c)\<close> for a one-character separator: never an empty list.\<close>

fun split_on :: "char \<Rightarrow> string \<Rightarrow> string list" where
  "split_on c [] = [[]]"
| "split_on c (x # xs) =
     (if x = c then [] # split_on c xs
      else (case split_on c xs of [] \<Rightarrow> [[x]] | w # ws \<Rightarrow> (x # w) # ws))"

text \<open>\<^verbatim>\<open>sep.join(parts)\<close>\<close>

fun join :: "string \<Rightarrow> string list \<Rightarrow> string" where
  "join sep [] = []"
| "join sep [p] = p"
| "join sep (p # q # ps) = p @ sep @ join sep (q # ps)"

text \<open>
  \<^verbatim>\<open>round(x, n)\<close>: to the nearest multiple of \<open>10\<^sup>-\<^sup>n\<close>, a tie going to the even one.
\<close>

definition py_round :: "real \<Rightarrow> nat \<Rightarrow> real" where
  "py_round x n =
     (let y = x * 10 ^ n; f = \<lfloor>y\<rfloor>; d = y - of_int f
      in of_int (if d < 1 / 2 then f else if 1 / 2 < d then f + 1
                 else if even f then f else f + 1) / 10 ^ n)"

text \<open>
  The exceptions the two scripts can raise, and the fatal exit of
  \<^verbatim>\<open>error(..., exit=True)\<close>.
\<close>

datatype error =
    UnrecognizedRelease
  | IndexError
  | ValueError
  | KeyError
  | ZeroDivisionError
  | UnboundLocalError

text \<open>
  Modelled from the spec: \<^verbatim>\<open>util_fun.error\<close> is not among the sources. Called with
  \<^verbatim>\<open>exit=True\<close> it is, by the specification, fatal: the operation aborts with the
  message. The model returns the error value and nothing is processed after it.
\<close>

definition error_exit :: "error \<Rightarrow> error + 'a" where
  "error_exit e = Inl e"

text \<open>
  A \<^verbatim>\<open>dict\<close> keeps its keys in insertion order, and the writers iterate in that order:
  an association list with distinct keys. \<open>dict_set\<close> is \<^verbatim>\<open>d[k] = v\<close>: an existing key
  keeps its place, a new key goes to the end.
\<close>

type_synonym ('k, 'v) dict = "('k \<times> 'v) list"

fun dict_set :: "('k, 'v) dict \<Rightarrow> 'k \<Rightarrow> 'v \<Rightarrow> ('k, 'v) dict" where
  "dict_set [] k v = [(k, v)]"
| "dict_set ((k', v') # d) k v = (if k' = k then (k, v) # d else (k', v') # dict_set d k v)"

text \<open>
  A float as a merged profile can hold it after the renormalisation: with numpy operands a
  division by zero does not raise, it gives \<^verbatim>\<open>inf\<close>, \<^verbatim>\<open>-inf\<close> or \<^verbatim>\<open>nan\<close> (and a warning),
  and the run goes on with that value.
\<close>

datatype fval = Fin real | NaN | PosInf | NegInf

text \<open>
  What is written to the output file, line by line. A line that contains a formatted
  float keeps the number; \<open>render\<close> gives the text, for the function \<open>str\<close> that formats a
  float (\<^verbatim>\<open>str(x)\<close>, or \<^verbatim>\<open>'{}'.format(x)\<close>).
\<close>

datatype out_line =
    Text string
  | Row string string real string
  | MRow string "fval list"
  | GUncl real
  | GRow string real

fun str_fval :: "(real \<Rightarrow> string) \<Rightarrow> fval \<Rightarrow> string" where
  "str_fval str (Fin v) = str v"
| "str_fval str NaN = ''nan''"
| "str_fval str PosInf = ''inf''"
| "str_fval str NegInf = ''-inf''"

fun render :: "(real \<Rightarrow> string) \<Rightarrow> out_line \<Rightarrow> string" where
  "render str (Text s) = s"
| "render str (Row tax nm v ex) = tax @ TAB @ join TAB [nm, str v, ex] @ ''\<newline>''"
| "render str (MRow tax vs) = tax @ TAB @ join TAB (map (str_fval str) vs) @ ''\<newline>''"
| "render str (GUncl u) = ''UNCLASSIFIED'' @ TAB @ str u @ ''\<newline>''"
| "render str (GRow tax v) = tax @ TAB @ str v @ ''\<newline>''"

section \<open>fix_relab_mpa4.py\<close>

text \<open>
  \<^verbatim>\<open>read_oct22_fixes\<close>: the first line is a header; every other line has exactly three
  tab-separated parts (the unpacking fails otherwise); a later line for the same old
  lineage replaces an earlier one.
\<close>

fun read_oct22_loop ::
  "(string \<rightharpoonup> string \<times> string) \<Rightarrow> string list \<Rightarrow> error + (string \<rightharpoonup> string \<times> string)" where
  "read_oct22_loop oct_fixes [] = Inr oct_fixes"
| "read_oct22_loop oct_fixes (l # ls) =
     (case split_on (CHR 0x09) l of
        [old_tax, new_tax, new_tax_id] \<Rightarrow>
          read_oct22_loop (oct_fixes(old_tax \<mapsto> (new_tax, strip new_tax_id))) ls
      | _ \<Rightarrow> Inl ValueError)"

definition read_oct22_fixes :: "string list \<Rightarrow> error + (string \<rightharpoonup> string \<times> string)" where
  "read_oct22_fixes file_lines = read_oct22_loop Map.empty (drop 1 file_lines)"

text \<open>
  \<^verbatim>\<open>xs[-i]\<close> on a list: the index counted from the end.
\<close>

definition neg :: "nat \<Rightarrow> 'a list \<Rightarrow> nat" where
  "neg i xs = length xs - i"

text \<open>
  A cell of a non-merged profile is the list \<^verbatim>\<open>[line[1], float(line[2]), extra]\<close>:
  the identifier, the relative abundance and the optional fourth column.
\<close>

datatype cell = Cell (cname: string) (cval: real) (cextra: string)

text \<open>
  The local variables of \<^verbatim>\<open>fix_relab_mpa4\<close> while it reads the input, and the lines
  written so far. \<^verbatim>\<open>release\<close> starts as \<^verbatim>\<open>None\<close>, \<^verbatim>\<open>unclassified_fraction\<close> as 0
  and \<^verbatim>\<open>taxa_levs\<close> as eight empty dicts.
\<close>

record ('u, 'c) state =
  release :: "string option"
  unclassified_fraction :: 'u
  taxa_levs :: "(string, 'c) dict list"
  out :: "out_line list"

definition init_state :: "(real, cell) state" where
  "init_state =
     \<lparr>release = None, unclassified_fraction = 0,
      taxa_levs = [[], [], [], [], [], [], [], []], out = []\<rparr>"

text \<open>Lines 121 to 124: the two renames of the newer release, the second under \<^verbatim>\<open>elif\<close>.\<close>

definition fix_jun23 :: "string \<Rightarrow> string" where
  "fix_jun23 line =
     (if contains line ''p__Bacillota'' then replace line ''p__Bacillota'' ''p__Firmicutes''
      else if contains line ''f__Saccharomycetales_unclassified''
        then replace line ''f__Saccharomycetales_unclassified'' ''f__Debaryomycetaceae''
      else line)"

text \<open>
  Lines 128 to 130, non-merged: \<^verbatim>\<open>line[0], line[1] = oct_fixes[line[0]]\<close> when the
  lineage is a key of the table.
\<close>

definition fix_oct22 ::
  "(string \<rightharpoonup> string \<times> string) \<Rightarrow> string list \<Rightarrow> error + string list" where
  "fix_oct22 oct_fixes parts =
     (case parts of
        [] \<Rightarrow> Inl IndexError
      | f0 # rest \<Rightarrow>
          (case oct_fixes f0 of
             None \<Rightarrow> Inr parts
           | Some (new_tax, new_tax_id) \<Rightarrow>
               if length parts < 2 then Inl IndexError
               else Inr (parts[0 := new_tax, 1 := new_tax_id])))"

text \<open>
  Line 137: \<^verbatim>\<open>taxa_levs[-1][line[0]] = [line[1], float(line[2]), line[3] if len(line) == 4 else '']\<close>.
  The function \<open>flt\<close> is \<^verbatim>\<open>float(s)\<close>, \<open>None\<close> when it raises.
\<close>

definition store_leaf ::
  "(string \<Rightarrow> real option) \<Rightarrow> (real, cell) state \<Rightarrow> string list \<Rightarrow> error + (real, cell) state" where
  "store_leaf flt st parts =
     (if length parts < 3 then Inl IndexError
      else case flt (parts ! 2) of
        None \<Rightarrow> Inl ValueError
      | Some v \<Rightarrow>
          Inr (st\<lparr>taxa_levs := (taxa_levs st)[neg 1 (taxa_levs st) :=
                 dict_set (taxa_levs st ! neg 1 (taxa_levs st)) (parts ! 0)
                   (Cell (parts ! 1) v (if length parts = 4 then parts ! 3 else ''''))]\<rparr>))"

text \<open>
  Lines 120 to 134, non-merged: the fields of a data line after the correction that the
  release calls for. The line is rewritten before it is split for the newer release,
  and looked up after it is split for the older one.
\<close>

definition fix_labels ::
  "(string \<rightharpoonup> string \<times> string) \<Rightarrow> string option \<Rightarrow> string \<Rightarrow> error + string list" where
  "fix_labels oct_fixes rel line =
     (if rel = Some ''mpa_vJun23_CHOCOPhlAnSGB_202307'' then
        Inr (split_on (CHR 0x09) (strip (fix_jun23 line)))
      else if rel = Some ''mpa_vOct22_CHOCOPhlAnSGB_202212'' then
        fix_oct22 oct_fixes (split_on (CHR 0x09) (strip line))
      else error_exit UnrecognizedRelease)"

text \<open>The body of the reading loop, lines 105 to 139, for a non-merged profile.\<close>

definition process_line ::
  "(string \<Rightarrow> real option) \<Rightarrow> (string \<rightharpoonup> string \<times> string) \<Rightarrow> (real, cell) state \<Rightarrow> string
     \<Rightarrow> error + (real, cell) state" where
  "process_line flt oct_fixes st line =
     (if startswith line ''#mpa_v'' then
        Inr (st\<lparr>release := Some (drop 1 (strip line)),
                out := out st @
                  [Text (strip (join ''_'' (butlast (split_on (CHR ''_'') line))) @ ''_202403\<newline>'')]\<rparr>)
      else if startswith line ''#'' \<or> startswith line ''clade_name'' then
        Inr (st\<lparr>out := out st @ [Text line]\<rparr>)
      else if startswith line ''UNCLASSIFIED'' then
        (let parts = split_on (CHR 0x09) line in
         if length parts < 3 then Inl IndexError
         else case flt (parts ! 2) of
           None \<Rightarrow> Inl ValueError
         | Some u \<Rightarrow> Inr (st\<lparr>unclassified_fraction := u, out := out st @ [Text line]\<rparr>))
      else if contains line ''t__'' then
        (case fix_labels oct_fixes (release st) line of
           Inl e \<Rightarrow> Inl e
         | Inr parts \<Rightarrow> store_leaf flt st parts)
      else Inr st)"

fun process_lines ::
  "(string \<Rightarrow> real option) \<Rightarrow> (string \<rightharpoonup> string \<times> string) \<Rightarrow> (real, cell) state \<Rightarrow> string list
     \<Rightarrow> error + (real, cell) state" where
  "process_lines flt oct_fixes st [] = Inr st"
| "process_lines flt oct_fixes st (line # rest) =
     (case process_line flt oct_fixes st line of
        Inl e \<Rightarrow> Inl e
      | Inr st' \<Rightarrow> process_lines flt oct_fixes st' rest)"

text \<open>
  \<^verbatim>\<open>assign_higher_taxonomic_levels\<close>, the branch \<^verbatim>\<open>not merged\<close>. \<open>higher_taxon\<close> is
  \<^verbatim>\<open>'|'.join(ss.split('|')[:-1])\<close>; \<open>assign_one\<close> is the body of the inner loop for the
  entry \<open>ss\<close> of the lower table, as a function of the higher table; \<open>assign_level\<close> is the
  body of the outer loop for \<open>i\<close>.
\<close>

definition higher_taxon :: "string \<Rightarrow> string" where
  "higher_taxon ss = join ''|'' (butlast (split_on (CHR ''|'') ss))"

definition assign_one :: "(string, cell) dict \<Rightarrow> string \<times> cell \<Rightarrow> (string, cell) dict" where
  "assign_one higher entry =
     (let gg = higher_taxon (fst entry); gg_n = higher_taxon (cname (snd entry))
      in case map_of higher gg of
           None \<Rightarrow> dict_set higher gg (Cell gg_n (cval (snd entry)) '''')
         | Some c \<Rightarrow> dict_set higher gg (Cell (cname c) (cval c + cval (snd entry)) (cextra c)))"

definition assign_level :: "(string, cell) dict list \<Rightarrow> nat \<Rightarrow> (string, cell) dict list" where
  "assign_level tlv i =
     (let j = i + 1
      in tlv[neg j tlv := foldl assign_one (tlv ! neg j tlv) (tlv ! neg i tlv)])"

definition assign_higher_taxonomic_levels ::
  "(string, cell) dict list \<Rightarrow> (string, cell) dict list" where
  "assign_higher_taxonomic_levels tlv = foldl assign_level tlv [1, 2, 3, 4, 5, 6, 7]"

text \<open>
  Lines 146 to 157. \<open>sum_level\<close> is the sum of one table; \<open>write_level\<close> renormalises and
  writes the rows of one level, and raises on the first row when the total is zero.
\<close>

definition sum_level :: "(string, cell) dict \<Rightarrow> real" where
  "sum_level d = foldl (\<lambda>acc entry. acc + cval (snd entry)) 0 d"

fun write_level :: "real \<Rightarrow> (string, cell) dict \<Rightarrow> error + out_line list" where
  "write_level total_sum [] = Inr []"
| "write_level total_sum ((tax, c) # d) =
     (if total_sum = 0 then Inl ZeroDivisionError
      else case write_level total_sum d of
        Inl e \<Rightarrow> Inl e
      | Inr rows \<Rightarrow> Inr (Row tax (cname c) (py_round (100 * cval c / total_sum) 5) (cextra c) # rows))"

fun write_levels :: "real \<Rightarrow> (string, cell) dict list \<Rightarrow> error + out_line list" where
  "write_levels u [] = Inr []"
| "write_levels u (d # ds) =
     (case write_level (sum_level d + u) d of
        Inl e \<Rightarrow> Inl e
      | Inr rows \<Rightarrow>
          (case write_levels u ds of
             Inl e \<Rightarrow> Inl e
           | Inr below \<Rightarrow> Inr (rows @ below)))"

text \<open>
  The branch \<^verbatim>\<open>not merged\<close> of \<^verbatim>\<open>fix_relab_mpa4\<close>: the lines of the input file to the
  lines of the output file. The debugging \<^verbatim>\<open>print\<close> calls write to the terminal, not to
  the file, and are left out.
\<close>

definition fix_relab_not_merged ::
  "(string \<Rightarrow> real option) \<Rightarrow> (string \<rightharpoonup> string \<times> string) \<Rightarrow> string list \<Rightarrow> error + out_line list" where
  "fix_relab_not_merged flt oct_fixes lines =
     (case process_lines flt oct_fixes init_state lines of
        Inl e \<Rightarrow> Inl e
      | Inr st \<Rightarrow>
          (case write_levels (unclassified_fraction st)
                  (assign_higher_taxonomic_levels (taxa_levs st)) of
             Inl e \<Rightarrow> Inl e
           | Inr rows \<Rightarrow> Inr (out st @ rows)))"

subsection \<open>Merged profiles\<close>

text \<open>
  With \<^verbatim>\<open>merged\<close> a cell is a list of floats, one for each sample column. Line 90 stores
  the list object of the child in the table of the parent, and lines 174 to 176 assign
  to the elements of a cell in place, so two tables can hold the same object. The model
  keeps the list objects in a store, \<open>heap\<close>, and the tables hold addresses (indices of
  the store). \<^verbatim>\<open>unclassified_fraction\<close> is \<open>None\<close> while it is the initial \<^verbatim>\<open>0\<close>; \<open>ncols\<close>
  is \<open>None\<close> while the variable is unbound.
\<close>

record mstate = "(real list option, nat) state" +
  ncols :: "nat option"
  heap :: "real list list"

definition init_mstate :: mstate where
  "init_mstate =
     \<lparr>release = None, unclassified_fraction = None,
      taxa_levs = [[], [], [], [], [], [], [], []], out = [],
      ncols = None, heap = []\<rparr>"

text \<open>
  \<^verbatim>\<open>numpy.add\<close> on two one-dimensional operands: elementwise on equal lengths, an operand
  of length one is broadcast, any other pair of lengths raises.
\<close>

definition np_add :: "real list \<Rightarrow> real list \<Rightarrow> error + real list" where
  "np_add a b =
     (if length a = length b then Inr (map2 (+) a b)
      else if length a = 1 then Inr (map (\<lambda>y. hd a + y) b)
      else if length b = 1 then Inr (map (\<lambda>x. x + hd b) a)
      else Inl ValueError)"

text \<open>Line 132: \<^verbatim>\<open>line[0] = oct_fixes[line[0]][0]\<close> when the lineage is a key of the table.\<close>

definition fix_oct22_merged :: "(string \<rightharpoonup> string \<times> string) \<Rightarrow> string list \<Rightarrow> string list" where
  "fix_oct22_merged oct_fixes parts =
     (case parts of
        [] \<Rightarrow> []
      | f0 # rest \<Rightarrow>
          (case oct_fixes f0 of
             None \<Rightarrow> parts
           | Some new \<Rightarrow> fst new # rest))"

text \<open>
  Lines 139 and 140: \<^verbatim>\<open>taxa_levs[-1][line[0]] = [float(l) for l in line[1:]]\<close>, a new list
  object, and \<^verbatim>\<open>ncols = len(line) - 1\<close>.
\<close>

definition store_leaf_merged ::
  "(string \<Rightarrow> real option) \<Rightarrow> mstate \<Rightarrow> string list \<Rightarrow> error + mstate" where
  "store_leaf_merged flt st parts =
     (case parts of
        [] \<Rightarrow> Inl IndexError
      | f0 # rest \<Rightarrow>
          (case those (map flt rest) of
             None \<Rightarrow> Inl ValueError
           | Some vs \<Rightarrow>
               Inr (st\<lparr>taxa_levs := (taxa_levs st)[neg 1 (taxa_levs st) :=
                         dict_set (taxa_levs st ! neg 1 (taxa_levs st)) f0 (length (heap st))],
                       ncols := Some (length parts - 1),
                       heap := heap st @ [vs]\<rparr>)))"

definition fix_labels_merged ::
  "(string \<rightharpoonup> string \<times> string) \<Rightarrow> string option \<Rightarrow> string \<Rightarrow> error + string list" where
  "fix_labels_merged oct_fixes rel line =
     (if rel = Some ''mpa_vJun23_CHOCOPhlAnSGB_202307'' then
        Inr (split_on (CHR 0x09) (strip (fix_jun23 line)))
      else if rel = Some ''mpa_vOct22_CHOCOPhlAnSGB_202212'' then
        Inr (fix_oct22_merged oct_fixes (split_on (CHR 0x09) (strip line)))
      else error_exit UnrecognizedRelease)"

definition process_line_merged ::
  "(string \<Rightarrow> real option) \<Rightarrow> (string \<rightharpoonup> string \<times> string) \<Rightarrow> mstate \<Rightarrow> string \<Rightarrow> error + mstate" where
  "process_line_merged flt oct_fixes st line =
     (if startswith line ''#mpa_v'' then
        Inr (st\<lparr>release := Some (drop 1 (strip line)),
                out := out st @
                  [Text (strip (join ''_'' (butlast (split_on (CHR ''_'') line))) @ ''_202403\<newline>'')]\<rparr>)
      else if startswith line ''#'' \<or> startswith line ''clade_name'' then
        Inr (st\<lparr>out := out st @ [Text line]\<rparr>)
      else if startswith line ''UNCLASSIFIED'' then
        (case those (map flt (drop 1 (split_on (CHR 0x09) line))) of
           None \<Rightarrow> Inl ValueError
         | Some us \<Rightarrow> Inr (st\<lparr>unclassified_fraction := Some us, out := out st @ [Text line]\<rparr>))
      else if contains line ''t__'' then
        (case fix_labels_merged oct_fixes (release st) line of
           Inl e \<Rightarrow> Inl e
         | Inr parts \<Rightarrow> store_leaf_merged flt st parts)
      else Inr st)"

fun process_lines_merged ::
  "(string \<Rightarrow> real option) \<Rightarrow> (string \<rightharpoonup> string \<times> string) \<Rightarrow> mstate \<Rightarrow> string list \<Rightarrow> error + mstate" where
  "process_lines_merged flt oct_fixes st [] = Inr st"
| "process_lines_merged flt oct_fixes st (line # rest) =
     (case process_line_merged flt oct_fixes st line of
        Inl e \<Rightarrow> Inl e
      | Inr st' \<Rightarrow> process_lines_merged flt oct_fixes st' rest)"

text \<open>
  \<^verbatim>\<open>assign_higher_taxonomic_levels\<close>, the branch \<^verbatim>\<open>merged\<close>. A new parent takes the
  address of the child (line 90); an existing parent is bound to the new array that
  \<^verbatim>\<open>np.add\<close> returns (line 93).
\<close>

definition assign_one_merged ::
  "real list list \<times> (string, nat) dict \<Rightarrow> string \<times> nat
     \<Rightarrow> error + real list list \<times> (string, nat) dict" where
  "assign_one_merged hp entry =
     (let gg = higher_taxon (fst entry)
      in case map_of (snd hp) gg of
           None \<Rightarrow> Inr (fst hp, dict_set (snd hp) gg (snd entry))
         | Some a \<Rightarrow>
             (case np_add (fst hp ! a) (fst hp ! snd entry) of
                Inl e \<Rightarrow> Inl e
              | Inr r \<Rightarrow> Inr (fst hp @ [r], dict_set (snd hp) gg (length (fst hp)))))"

fun assign_entries_merged ::
  "real list list \<times> (string, nat) dict \<Rightarrow> (string \<times> nat) list
     \<Rightarrow> error + real list list \<times> (string, nat) dict" where
  "assign_entries_merged hp [] = Inr hp"
| "assign_entries_merged hp (entry # rest) =
     (case assign_one_merged hp entry of
        Inl e \<Rightarrow> Inl e
      | Inr hp' \<Rightarrow> assign_entries_merged hp' rest)"

definition assign_level_merged ::
  "real list list \<times> (string, nat) dict list \<Rightarrow> nat
     \<Rightarrow> error + real list list \<times> (string, nat) dict list" where
  "assign_level_merged ht i =
     (let j = i + 1; tlv = snd ht
      in case assign_entries_merged (fst ht, tlv ! neg j tlv) (tlv ! neg i tlv) of
           Inl e \<Rightarrow> Inl e
         | Inr hp \<Rightarrow> Inr (fst hp, tlv[neg j tlv := snd hp]))"

fun assign_levels_merged ::
  "real list list \<times> (string, nat) dict list \<Rightarrow> nat list
     \<Rightarrow> error + real list list \<times> (string, nat) dict list" where
  "assign_levels_merged ht [] = Inr ht"
| "assign_levels_merged ht (i # rest) =
     (case assign_level_merged ht i of
        Inl e \<Rightarrow> Inl e
      | Inr ht' \<Rightarrow> assign_levels_merged ht' rest)"

definition assign_higher_taxonomic_levels_merged ::
  "real list list \<times> (string, nat) dict list \<Rightarrow> error + real list list \<times> (string, nat) dict list" where
  "assign_higher_taxonomic_levels_merged ht = assign_levels_merged ht [1, 2, 3, 4, 5, 6, 7]"

text \<open>
  Lines 166 to 169: the column sums of one level, from \<^verbatim>\<open>[0] * ncols\<close>; and of all levels.
\<close>

fun sum_level_merged :: "real list list \<Rightarrow> real list \<Rightarrow> (string, nat) dict \<Rightarrow> error + real list" where
  "sum_level_merged hp acc [] = Inr acc"
| "sum_level_merged hp acc ((tax, a) # d) =
     (case np_add acc (hp ! a) of
        Inl e \<Rightarrow> Inl e
      | Inr acc' \<Rightarrow> sum_level_merged hp acc' d)"

fun sum_levels_merged ::
  "real list list \<Rightarrow> nat \<Rightarrow> (string, nat) dict list \<Rightarrow> error + real list list" where
  "sum_levels_merged hp n [] = Inr []"
| "sum_levels_merged hp n (d # ds) =
     (case sum_level_merged hp (replicate n 0) d of
        Inl e \<Rightarrow> Inl e
      | Inr s \<Rightarrow>
          (case sum_levels_merged hp n ds of
             Inl e \<Rightarrow> Inl e
           | Inr ss \<Rightarrow> Inr (s # ss)))"

text \<open>
  Line 176 for one column: \<^verbatim>\<open>round(100 * x / total_sum, 5)\<close>, where \<open>total_sum\<close> is a numpy
  float. A zero total (always \<^verbatim>\<open>+0.0\<close>: the sums start from the integer 0) gives \<^verbatim>\<open>inf\<close>,
  \<^verbatim>\<open>-inf\<close> or \<^verbatim>\<open>nan\<close> by the sign of \<open>x\<close>; a value that is not finite stays so, since
  a cell that two tables share is renormalised once for each of them.
\<close>

definition renormalise :: "fval \<Rightarrow> real \<Rightarrow> fval" where
  "renormalise x total_sum =
     (case x of
        Fin v \<Rightarrow>
          if total_sum = 0 then (if 0 < v then PosInf else if v < 0 then NegInf else NaN)
          else Fin (py_round (100 * v / total_sum) 5)
      | NaN \<Rightarrow> NaN
      | PosInf \<Rightarrow> if total_sum < 0 then NegInf else PosInf
      | NegInf \<Rightarrow> if total_sum < 0 then PosInf else NegInf)"

text \<open>
  Lines 174 to 176, the loop over the columns \<open>ns\<close> of one cell \<open>c\<close>, with the column sums
  \<open>s\<close> of the level and the unclassified fractions \<open>u\<close>.
\<close>

fun normalize_cell :: "real list \<Rightarrow> real list \<Rightarrow> fval list \<Rightarrow> nat list \<Rightarrow> error + fval list" where
  "normalize_cell s u c [] = Inr c"
| "normalize_cell s u c (n # ns) =
     (if length s \<le> n \<or> length u \<le> n then Inl IndexError
      else normalize_cell s u (c[n := renormalise (c ! n) (s ! n + u ! n)]) ns)"

text \<open>
  Lines 173 to 177 for the rows of one level: each cell is renormalised in the store,
  then its row is written.
\<close>

fun write_level_merged ::
  "real list \<Rightarrow> real list \<Rightarrow> fval list list \<Rightarrow> (string, nat) dict
     \<Rightarrow> error + fval list list \<times> out_line list" where
  "write_level_merged s u hp [] = Inr (hp, [])"
| "write_level_merged s u hp ((tax, a) # d) =
     (case normalize_cell s u (hp ! a) [0..<length (hp ! a)] of
        Inl e \<Rightarrow> Inl e
      | Inr c \<Rightarrow>
          (case write_level_merged s u (hp[a := c]) d of
             Inl e \<Rightarrow> Inl e
           | Inr (hp', rows) \<Rightarrow> Inr (hp', MRow tax c # rows)))"

fun write_levels_merged ::
  "real list \<Rightarrow> fval list list \<Rightarrow> real list list \<Rightarrow> (string, nat) dict list
     \<Rightarrow> error + out_line list" where
  "write_levels_merged u hp [] ds = Inr []"
| "write_levels_merged u hp (s # ss) [] = Inr []"
| "write_levels_merged u hp (s # ss) (d # ds) =
     (case write_level_merged s u hp d of
        Inl e \<Rightarrow> Inl e
      | Inr (hp', rows) \<Rightarrow>
          (case write_levels_merged u hp' ss ds of
             Inl e \<Rightarrow> Inl e
           | Inr below \<Rightarrow> Inr (rows @ below)))"

text \<open>
  The branch \<^verbatim>\<open>merged\<close> of \<^verbatim>\<open>fix_relab_mpa4\<close>. Every float of the store is finite until
  the renormalisation starts.
\<close>

definition fix_relab_merged ::
  "(string \<Rightarrow> real option) \<Rightarrow> (string \<rightharpoonup> string \<times> string) \<Rightarrow> string list \<Rightarrow> error + out_line list" where
  "fix_relab_merged flt oct_fixes lines =
     (case process_lines_merged flt oct_fixes init_mstate lines of
        Inl e \<Rightarrow> Inl e
      | Inr st \<Rightarrow>
          (case assign_higher_taxonomic_levels_merged (heap st, taxa_levs st) of
             Inl e \<Rightarrow> Inl e
           | Inr ht \<Rightarrow>
               (case ncols st of
                  None \<Rightarrow> Inl UnboundLocalError
                | Some n \<Rightarrow>
                    (let u = (case unclassified_fraction st of None \<Rightarrow> replicate n 0 | Some us \<Rightarrow> us)
                     in case sum_levels_merged (fst ht) n (snd ht) of
                          Inl e \<Rightarrow> Inl e
                        | Inr totals \<Rightarrow>
                            (case write_levels_merged u (map (map Fin) (fst ht)) totals (snd ht) of
                               Inl e \<Rightarrow> Inl e
                             | Inr rows \<Rightarrow> Inr (out st @ rows))))))"

text \<open>\<^verbatim>\<open>fix_relab_mpa4(input, output, merged)\<close>\<close>

definition fix_relab_mpa4 ::
  "(string \<Rightarrow> real option) \<Rightarrow> (string \<rightharpoonup> string \<times> string) \<Rightarrow> string list \<Rightarrow> bool
     \<Rightarrow> error + out_line list" where
  "fix_relab_mpa4 flt oct_fixes lines merged =
     (if \<not> merged then fix_relab_not_merged flt oct_fixes lines
      else fix_relab_merged flt oct_fixes lines)"

section \<open>sgb_to_gtdb_profile.py\<close>

text \<open>
  Lines 56 to 58: the table from SGB identifiers to GTDB lineages, read from the lines
  of its file.
\<close>

fun read_sgb2gtdb :: "(string \<rightharpoonup> string) \<Rightarrow> string list \<Rightarrow> error + (string \<rightharpoonup> string)" where
  "read_sgb2gtdb sgb2gtdb [] = Inr sgb2gtdb"
| "read_sgb2gtdb sgb2gtdb (line # rest) =
     (let parts = split_on (CHR 0x09) (strip line)
      in if length parts < 2 then Inl IndexError
         else read_sgb2gtdb (sgb2gtdb(parts ! 0 \<mapsto> parts ! 1)) rest)"

text \<open>
  The dict \<^verbatim>\<open>abundances\<close> has one table for each of \<^verbatim>\<open>['d','p','c','o','f','g','s']\<close>; the
  model keeps the seven tables in that order, so that \<^verbatim>\<open>abundances['s']\<close> is the table
  at index 6.
\<close>

record gtdb_state =
  unclassified :: real
  abundances :: "(string, real) dict list"
  gout :: "out_line list"

definition gtdb_init :: gtdb_state where
  "gtdb_init = \<lparr>unclassified = 0, abundances = [[], [], [], [], [], [], []], gout = []\<rparr>"

text \<open>
  \<^verbatim>\<open>if k not in d: d[k] = 0\<close> followed by \<^verbatim>\<open>d[k] += v\<close> (lines 73 to 75 and 81 to 83).
\<close>

definition dict_add :: "(string, real) dict \<Rightarrow> string \<Rightarrow> real \<Rightarrow> (string, real) dict" where
  "dict_add d k v =
     (case map_of d k of
        None \<Rightarrow> dict_set d k (0 + v)
      | Some a \<Rightarrow> dict_set d k (a + v))"

definition gtdb_line ::
  "(string \<Rightarrow> real option) \<Rightarrow> (string \<rightharpoonup> string) \<Rightarrow> gtdb_state \<Rightarrow> string \<Rightarrow> error + gtdb_state" where
  "gtdb_line flt sgb2gtdb st line =
     (if startswith line ''#mpa_'' then
        Inr (st\<lparr>gout := gout st @
               [Text line, Text (''#clade_name'' @ TAB @ ''relative_abundance\<newline>'')]\<rparr>)
      else if startswith line ''UNCLASSIFIED'' then
        (let parts = split_on (CHR 0x09) (strip line) in
         if length parts < 3 then Inl IndexError
         else case flt (parts ! 2) of
           None \<Rightarrow> Inl ValueError
         | Some u \<Rightarrow> Inr (st\<lparr>unclassified := u, gout := gout st @ [GUncl u]\<rparr>))
      else if contains line ''t__SGB'' then
        (let parts = split_on (CHR 0x09) (strip line) in
         case sgb2gtdb (drop 3 (last (split_on (CHR ''|'') (parts ! 0)))) of
           None \<Rightarrow> Inl KeyError
         | Some gtdb_tax \<Rightarrow>
             (if length parts < 3 then Inl IndexError
              else (case flt (parts ! 2) of
                 None \<Rightarrow> Inl ValueError
               | Some v \<Rightarrow>
                   Inr (st\<lparr>abundances := (abundances st)[6 :=
                          dict_add (abundances st ! 6) gtdb_tax v]\<rparr>))))
      else Inr st)"

fun gtdb_lines ::
  "(string \<Rightarrow> real option) \<Rightarrow> (string \<rightharpoonup> string) \<Rightarrow> gtdb_state \<Rightarrow> string list \<Rightarrow> error + gtdb_state" where
  "gtdb_lines flt sgb2gtdb st [] = Inr st"
| "gtdb_lines flt sgb2gtdb st (line # rest) =
     (case gtdb_line flt sgb2gtdb st line of
        Inl e \<Rightarrow> Inl e
      | Inr st' \<Rightarrow> gtdb_lines flt sgb2gtdb st' rest)"

text \<open>
  Lines 76 to 83. \<open>gtdb_new_tax\<close> is line 79,
  \<^verbatim>\<open>tax.replace(';{}'.format(tax.split(';')[-1]), '')\<close>. The loop runs over the reversed
  ladder without its last element: the tables at index 6, 5, 4, 3, 2, 1, each
  added into the table before it.
\<close>

definition gtdb_new_tax :: "string \<Rightarrow> string" where
  "gtdb_new_tax tax = replace tax (CHR '';'' # last (split_on (CHR '';'') tax)) ''''"

definition gtdb_add_one :: "(string, real) dict \<Rightarrow> string \<times> real \<Rightarrow> (string, real) dict" where
  "gtdb_add_one higher entry = dict_add higher (gtdb_new_tax (fst entry)) (snd entry)"

definition gtdb_level :: "(string, real) dict list \<Rightarrow> nat \<Rightarrow> (string, real) dict list" where
  "gtdb_level ab k = ab[k - 1 := foldl gtdb_add_one (ab ! (k - 1)) (ab ! k)]"

definition gtdb_aggregate :: "(string, real) dict list \<Rightarrow> (string, real) dict list" where
  "gtdb_aggregate ab = foldl gtdb_level ab [6, 5, 4, 3, 2, 1]"

text \<open>
  Lines 84 to 88: the ladder is reversed back, the total of each table is taken, and
  the rows are written table by table.
\<close>

definition total4level :: "(string, real) dict \<Rightarrow> real" where
  "total4level d = sum_list (map snd d)"

fun gtdb_write_level :: "real \<Rightarrow> (string, real) dict \<Rightarrow> error + out_line list" where
  "gtdb_write_level tot [] = Inr []"
| "gtdb_write_level tot ((tax, v) # d) =
     (if tot = 0 then Inl ZeroDivisionError
      else case gtdb_write_level tot d of
        Inl e \<Rightarrow> Inl e
      | Inr rows \<Rightarrow> Inr (GRow tax (v * 100 / tot) # rows))"

fun gtdb_write_levels :: "(string, real) dict list \<Rightarrow> error + out_line list" where
  "gtdb_write_levels [] = Inr []"
| "gtdb_write_levels (d # ds) =
     (case gtdb_write_level (total4level d) d of
        Inl e \<Rightarrow> Inl e
      | Inr rows \<Rightarrow>
          (case gtdb_write_levels ds of
             Inl e \<Rightarrow> Inl e
           | Inr below \<Rightarrow> Inr (rows @ below)))"

text \<open>
  \<^verbatim>\<open>get_gtdb_profile\<close>, from the lines of the table file and of the input profile to the
  lines of the output profile.
\<close>

definition get_gtdb_profile ::
  "(string \<Rightarrow> real option) \<Rightarrow> string list \<Rightarrow> string list \<Rightarrow> error + out_line list" where
  "get_gtdb_profile flt table_lines lines =
     (case read_sgb2gtdb Map.empty table_lines of
        Inl e \<Rightarrow> Inl e
      | Inr sgb2gtdb \<Rightarrow>
          (case gtdb_lines flt sgb2gtdb gtdb_init lines of
             Inl e \<Rightarrow> Inl e
           | Inr st \<Rightarrow>
               (case gtdb_write_levels (gtdb_aggregate (abundances st)) of
                  Inl e \<Rightarrow> Inl e
                | Inr rows \<Rightarrow> Inr (gout st @ rows))))"

section \<open>Decimal numerals\<close>

text \<open>
  The concrete scenarios need a concrete \<^verbatim>\<open>float(s)\<close> and \<^verbatim>\<open>str(x)\<close>. \<open>float_dec\<close> reads
  a plain decimal numeral (sign, digits, optional point and digits, surrounded by
  whitespace), and \<open>str_dec\<close> writes a number with a finite decimal expansion the way
  Python prints such a float (\<^verbatim>\<open>95.0\<close>, \<^verbatim>\<open>33.33333\<close>). Exponents, \<^verbatim>\<open>inf\<close> and \<^verbatim>\<open>nan\<close>
  are not covered; every general theorem below holds for an arbitrary \<open>flt\<close>.
\<close>

definition is_digit :: "char \<Rightarrow> bool" where
  "is_digit c = (48 \<le> (of_char c :: nat) \<and> (of_char c :: nat) \<le> 57)"

fun digits_val :: "nat \<Rightarrow> string \<Rightarrow> nat option" where
  "digits_val acc [] = Some acc"
| "digits_val acc (c # cs) =
     (if is_digit c then digits_val (10 * acc + (of_char c - 48)) cs else None)"

definition float_dec :: "string \<Rightarrow> real option" where
  "float_dec s =
     (let t = strip s;
          negative = startswith t ''-'';
          body = (if startswith t ''-'' \<or> startswith t ''+'' then drop 1 t else t);
          ip = takeWhile (\<lambda>c. c \<noteq> CHR ''.'') body;
          fp = drop 1 (dropWhile (\<lambda>c. c \<noteq> CHR ''.'') body)
      in if ip = [] \<and> fp = [] then None
         else case (digits_val 0 ip, digits_val 0 fp) of
           (Some a, Some b) \<Rightarrow>
             Some ((if negative then - 1 else 1) * (real a + real b / 10 ^ length fp))
         | _ \<Rightarrow> None)"

fun nat_digits :: "nat \<Rightarrow> nat \<Rightarrow> string" where
  "nat_digits 0 n = []"
| "nat_digits (Suc fuel) n =
     (if n < 10 then [char_of (48 + n)]
      else nat_digits fuel (n div 10) @ [char_of (48 + n mod 10)])"

fun frac_digits :: "nat \<Rightarrow> real \<Rightarrow> string" where
  "frac_digits 0 x = []"
| "frac_digits (Suc fuel) x =
     (if x = 0 then []
      else char_of (48 + nat \<lfloor>x * 10\<rfloor>) # frac_digits fuel (x * 10 - of_int \<lfloor>x * 10\<rfloor>))"

definition str_dec :: "real \<Rightarrow> string" where
  "str_dec x =
     (let a = \<bar>x\<bar>; n = nat \<lfloor>a\<rfloor>; fr = frac_digits 17 (a - of_int \<lfloor>a\<rfloor>)
      in (if x < 0 then ''-'' else '''') @ nat_digits 20 n @ ''.'' @
         (if fr = [] then ''0'' else fr))"

section \<open>Notions used in the statements\<close>

text \<open>
  The lines that reach line 120 of \<^verbatim>\<open>fix_relab_mpa4\<close>: none of the first three branches
  of the reading loop takes them, and they contain \<^verbatim>\<open>t__\<close>.
\<close>

definition is_data_line :: "string \<Rightarrow> bool" where
  "is_data_line line =
     (\<not> startswith line ''#mpa_v'' \<and> \<not> startswith line ''#'' \<and> \<not> startswith line ''clade_name''
      \<and> \<not> startswith line ''UNCLASSIFIED'' \<and> contains line ''t__'')"

text \<open>
  The value of \<^verbatim>\<open>release\<close> after a run of lines: the stripped text, without its first
  character, of the last line that starts with \<^verbatim>\<open>#mpa_v\<close>.
\<close>

fun header_release :: "string option \<Rightarrow> string list \<Rightarrow> string option" where
  "header_release rel [] = rel"
| "header_release rel (line # rest) =
     header_release (if startswith line ''#mpa_v'' then Some (drop 1 (strip line)) else rel) rest"

text \<open>What the reading loop of \<^verbatim>\<open>fix_relab_mpa4\<close> writes for one input line.\<close>

definition written_while_reading :: "string \<Rightarrow> out_line list" where
  "written_while_reading line =
     (if startswith line ''#mpa_v'' then
        [Text (strip (join ''_'' (butlast (split_on (CHR ''_'') line))) @ ''_202403\<newline>'')]
      else if startswith line ''#'' \<or> startswith line ''clade_name'' then [Text line]
      else if startswith line ''UNCLASSIFIED'' then [Text line]
      else [])"

text \<open>
  The parent lineage in the words of the specification: the lineage with exactly its
  last separator-delimited segment removed.
\<close>

definition spec_parent_lineage :: "char \<Rightarrow> string \<Rightarrow> string" where
  "spec_parent_lineage sep lineage = join [sep] (butlast (split_on sep lineage))"

text \<open>The abundance a table holds for a lineage, 0 when the lineage is not a key.\<close>

definition value_at :: "(string, cell) dict \<Rightarrow> string \<Rightarrow> real" where
  "value_at d g = (case map_of d g of None \<Rightarrow> 0 | Some c \<Rightarrow> cval c)"


text \<open>
  The rows of one level as \<^verbatim>\<open>fix_relab_mpa4\<close> (non-merged) and \<^verbatim>\<open>get_gtdb_profile\<close>
  write them when the total of the level is not zero.
\<close>

definition level_rows :: "real \<Rightarrow> (string, cell) dict \<Rightarrow> out_line list" where
  "level_rows u d =
     map (\<lambda>entry. Row (fst entry) (cname (snd entry))
                     (py_round (100 * cval (snd entry) / (sum_level d + u)) 5)
                     (cextra (snd entry))) d"

definition gtdb_level_rows :: "(string, real) dict \<Rightarrow> out_line list" where
  "gtdb_level_rows d = map (\<lambda>entry. GRow (fst entry) (snd entry * 100 / total4level d)) d"

text \<open>The abundance values of the taxon rows among some output lines.\<close>

fun finite_value :: "fval \<Rightarrow> real list" where
  "finite_value (Fin v) = [v]"
| "finite_value x = []"

fun line_values :: "out_line \<Rightarrow> real list" where
  "line_values (Row tax nm v ex) = [v]"
| "line_values (GRow tax v) = [v]"
| "line_values (MRow tax vs) = concat (map finite_value vs)"
| "line_values (Text s) = []"
| "line_values (GUncl u) = []"

definition row_values :: "out_line list \<Rightarrow> real list" where
  "row_values ls = concat (map line_values ls)"

text \<open>The abundance of the first scalar row written for a lineage.\<close>

fun row_value :: "string \<Rightarrow> out_line list \<Rightarrow> real option" where
  "row_value tax [] = None"
| "row_value tax (Row t nm v ex # rest) = (if t = tax then Some v else row_value tax rest)"
| "row_value tax (GRow t v # rest) = (if t = tax then Some v else row_value tax rest)"
| "row_value tax (l # rest) = row_value tax rest"

text \<open>The values of the first vector row written for a lineage.\<close>

fun merged_row :: "string \<Rightarrow> out_line list \<Rightarrow> fval list option" where
  "merged_row tax [] = None"
| "merged_row tax (MRow t vs # rest) = (if t = tax then Some vs else merged_row tax rest)"
| "merged_row tax (l # rest) = merged_row tax rest"

section \<open>Concrete profiles\<close>

text \<open>
  The end-to-end scenario of the specification: the header of the newer release, an
  unclassified row of 5.0 and one data row of 95.0 under the phylum \<^verbatim>\<open>p__Bacillota\<close>.
\<close>

definition scenario_input :: "string list" where
  "scenario_input =
     [''#mpa_vJun23_CHOCOPhlAnSGB_202307\<newline>'',
      ''UNCLASSIFIED'' @ TAB @ ''-1'' @ TAB @ ''5.0'' @ TAB @ ''\<newline>'',
      ''d__Bacteria|p__Bacillota|c__C|o__O|f__F|g__G|s__Foo|t__SGB1'' @ TAB
        @ ''2|1239|3|4|5|6|7|'' @ TAB @ ''95.0'' @ TAB @ ''\<newline>'']"

definition scenario_state :: "(real, cell) state" where
  "scenario_state =
     \<lparr>release = Some ''mpa_vJun23_CHOCOPhlAnSGB_202307'', unclassified_fraction = 5,
      taxa_levs = [[], [], [], [], [], [], [],
        [(''d__Bacteria|p__Firmicutes|c__C|o__O|f__F|g__G|s__Foo|t__SGB1'',
          Cell ''2|1239|3|4|5|6|7|'' 95 '''')]],
      out = [Text ''#mpa_vJun23_CHOCOPhlAnSGB_202403\<newline>'',
             Text (''UNCLASSIFIED'' @ TAB @ ''-1'' @ TAB @ ''5.0'' @ TAB @ ''\<newline>'')]\<rparr>"

definition scenario_output :: "out_line list" where
  "scenario_output =
     [Text ''#mpa_vJun23_CHOCOPhlAnSGB_202403\<newline>'',
      Text (''UNCLASSIFIED'' @ TAB @ ''-1'' @ TAB @ ''5.0'' @ TAB @ ''\<newline>''),
      Row ''d__Bacteria'' ''2'' 95 '''',
      Row ''d__Bacteria|p__Firmicutes'' ''2|1239'' 95 '''',
      Row ''d__Bacteria|p__Firmicutes|c__C'' ''2|1239|3'' 95 '''',
      Row ''d__Bacteria|p__Firmicutes|c__C|o__O'' ''2|1239|3|4'' 95 '''',
      Row ''d__Bacteria|p__Firmicutes|c__C|o__O|f__F'' ''2|1239|3|4|5'' 95 '''',
      Row ''d__Bacteria|p__Firmicutes|c__C|o__O|f__F|g__G'' ''2|1239|3|4|5|6'' 95 '''',
      Row ''d__Bacteria|p__Firmicutes|c__C|o__O|f__F|g__G|s__Foo'' ''2|1239|3|4|5|6|7'' 95 '''',
      Row ''d__Bacteria|p__Firmicutes|c__C|o__O|f__F|g__G|s__Foo|t__SGB1''
        ''2|1239|3|4|5|6|7|'' 95 '''']"

text \<open>A profile whose header names a release that the script does not know.\<close>

definition unknown_release_input :: "string list" where
  "unknown_release_input =
     [''#mpa_vJan21_CHOCOPhlAnSGB_202103\<newline>'',
      ''k__B|t__SGB1'' @ TAB @ ''2|'' @ TAB @ ''95.0'' @ TAB @ ''\<newline>'']"

text \<open>What the reading loop of \<^verbatim>\<open>get_gtdb_profile\<close> writes for one input line.\<close>

definition gtdb_written_while_reading :: "(string \<Rightarrow> real option) \<Rightarrow> string \<Rightarrow> out_line list" where
  "gtdb_written_while_reading flt line =
     (if startswith line ''#mpa_'' then
        [Text line, Text (''#clade_name'' @ TAB @ ''relative_abundance\<newline>'')]
      else if startswith line ''UNCLASSIFIED'' then
        (case flt (split_on (CHR 0x09) (strip line) ! 2) of None \<Rightarrow> [] | Some u \<Rightarrow> [GUncl u])
      else [])"

text \<open>
  A run of the cross-nomenclature pipeline: one SGB with a full GTDB lineage, the
  unclassified row of 5.0 and one data row of 95.0.
\<close>

definition gtdb_scenario_table :: "string list" where
  "gtdb_scenario_table = [''SGB1'' @ TAB @ ''d__A;p__B;c__C;o__D;f__E;g__F;s__G\<newline>'']"

definition gtdb_scenario_input :: "string list" where
  "gtdb_scenario_input =
     [''#mpa_vJun23_CHOCOPhlAnSGB_202307\<newline>'',
      ''UNCLASSIFIED'' @ TAB @ ''-1'' @ TAB @ ''5.0'' @ TAB @ ''\<newline>'',
      ''d__Bacteria|s__Foo|t__SGB1'' @ TAB @ ''2|7|'' @ TAB @ ''95.0'' @ TAB @ ''\<newline>'']"

definition gtdb_scenario_output :: "out_line list" where
  "gtdb_scenario_output =
     [Text ''#mpa_vJun23_CHOCOPhlAnSGB_202307\<newline>'',
      Text (''#clade_name'' @ TAB @ ''relative_abundance\<newline>''),
      GUncl 5,
      GRow ''d__A'' 100,
      GRow ''d__A;p__B'' 100,
      GRow ''d__A;p__B;c__C'' 100,
      GRow ''d__A;p__B;c__C;o__D'' 100,
      GRow ''d__A;p__B;c__C;o__D;f__E'' 100,
      GRow ''d__A;p__B;c__C;o__D;f__E;g__F'' 100,
      GRow ''d__A;p__B;c__C;o__D;f__E;g__F;s__G'' 100]"

text \<open>
  Two data lines of the newer release: the first has both substrings that line 121 to
  124 look for, the second only the family.
\<close>

definition both_renames_line :: string where
  "both_renames_line =
     ''d__E|p__Bacillota|f__Saccharomycetales_unclassified|t__SGB9'' @ TAB @ ''1|'' @ TAB
       @ ''3.0'' @ TAB @ ''\<newline>''"

definition family_rename_line :: string where
  "family_rename_line =
     ''d__E|p__Ascomycota|f__Saccharomycetales_unclassified|t__SGB9'' @ TAB @ ''1|'' @ TAB
       @ ''3.0'' @ TAB @ ''\<newline>''"

definition jun23_state :: "(real, cell) state" where
  "jun23_state = init_state\<lparr>release := Some ''mpa_vJun23_CHOCOPhlAnSGB_202307''\<rparr>"

text \<open>
  A profile of the older release with two data lines, and a correction table that maps
  both lineages to the same new lineage.
\<close>

definition oct22_table :: "string \<rightharpoonup> string \<times> string" where
  "oct22_table =
     [''k__B|p__P|c__C|o__O|f__F|g__G|s__Old1|t__SGB1'' \<mapsto> (''k__B|p__P|c__C|o__O|f__F|g__G|s__New|t__SGB1'', ''2|3|4|5|6|7|9|''),
      ''k__B|p__P|c__C|o__O|f__F|g__G|s__Old2|t__SGB2'' \<mapsto> (''k__B|p__P|c__C|o__O|f__F|g__G|s__New|t__SGB1'', ''2|3|4|5|6|7|9|'')]"

definition oct22_state :: "(real, cell) state" where
  "oct22_state =
     \<lparr>release = Some ''mpa_vOct22_CHOCOPhlAnSGB_202212'', unclassified_fraction = 0,
      taxa_levs = [[], [], [], [], [], [], [], []],
      out = [Text ''#mpa_vOct22_CHOCOPhlAnSGB_202403\<newline>'']\<rparr>"

definition oct22_line1 :: string where
  "oct22_line1 = ''k__B|p__P|c__C|o__O|f__F|g__G|s__Old1|t__SGB1'' @ TAB @ ''2|3|4|5|6|7|1|'' @ TAB @ ''3.0'' @ TAB @ ''\<newline>''"

definition oct22_line2 :: string where
  "oct22_line2 = ''k__B|p__P|c__C|o__O|f__F|g__G|s__Old2|t__SGB2'' @ TAB @ ''2|3|4|5|6|7|2|'' @ TAB @ ''5.0'' @ TAB @ ''\<newline>''"

text \<open>The lineages of the taxon rows among some output lines, in the order of the lines.\<close>

fun line_lineage :: "out_line \<Rightarrow> string list" where
  "line_lineage (Row tax nm v ex) = [tax]"
| "line_lineage (GRow tax v) = [tax]"
| "line_lineage (MRow tax vs) = [tax]"
| "line_lineage (Text s) = []"
| "line_lineage (GUncl u) = []"

definition row_lineages :: "out_line list \<Rightarrow> string list" where
  "row_lineages ls = concat (map line_lineage ls)"

text \<open>The tables of the end-to-end scenario after the aggregation, domain first.\<close>

definition scenario_levels :: "(string, cell) dict list" where
  "scenario_levels =
     [[(''d__Bacteria'', Cell ''2'' 95 '''')],
      [(''d__Bacteria|p__Firmicutes'', Cell ''2|1239'' 95 '''')],
      [(''d__Bacteria|p__Firmicutes|c__C'', Cell ''2|1239|3'' 95 '''')],
      [(''d__Bacteria|p__Firmicutes|c__C|o__O'', Cell ''2|1239|3|4'' 95 '''')],
      [(''d__Bacteria|p__Firmicutes|c__C|o__O|f__F'', Cell ''2|1239|3|4|5'' 95 '''')],
      [(''d__Bacteria|p__Firmicutes|c__C|o__O|f__F|g__G'', Cell ''2|1239|3|4|5|6'' 95 '''')],
      [(''d__Bacteria|p__Firmicutes|c__C|o__O|f__F|g__G|s__Foo'', Cell ''2|1239|3|4|5|6|7'' 95 '''')],
      [(''d__Bacteria|p__Firmicutes|c__C|o__O|f__F|g__G|s__Foo|t__SGB1'',
        Cell ''2|1239|3|4|5|6|7|'' 95 '''')]]"

text \<open>The state of the cross-nomenclature run after reading, and its tables after the aggregation.\<close>

definition gtdb_scenario_state :: gtdb_state where
  "gtdb_scenario_state =
     \<lparr>unclassified = 5,
      abundances = [[], [], [], [], [], [], [(''d__A;p__B;c__C;o__D;f__E;g__F;s__G'', 95)]],
      gout = [Text ''#mpa_vJun23_CHOCOPhlAnSGB_202307\<newline>'',
              Text (''#clade_name'' @ TAB @ ''relative_abundance\<newline>''),
              GUncl 5]\<rparr>"

definition gtdb_scenario_levels :: "(string, real) dict list" where
  "gtdb_scenario_levels =
     [[(''d__A'', 95)],
      [(''d__A;p__B'', 95)],
      [(''d__A;p__B;c__C'', 95)],
      [(''d__A;p__B;c__C;o__D'', 95)],
      [(''d__A;p__B;c__C;o__D;f__E'', 95)],
      [(''d__A;p__B;c__C;o__D;f__E;g__F'', 95)],
      [(''d__A;p__B;c__C;o__D;f__E;g__F;s__G'', 95)]]"

text \<open>
  A profile of the cross-nomenclature pipeline with two species of one genus, of
  abundance 0.0625 and 63.9375: the two values, their sum 64, the products by 100 and the
  quotients by 64 are binary64 numbers, so that the script writes exactly the values of
  the model.
\<close>

definition dyadic_table :: "string list" where
  "dyadic_table =
     [''SGB1'' @ TAB @ ''d__A;p__B;c__C;o__D;f__E;g__F;s__G1\<newline>'',
      ''SGB2'' @ TAB @ ''d__A;p__B;c__C;o__D;f__E;g__F;s__G2\<newline>'']"

definition dyadic_input :: "string list" where
  "dyadic_input =
     [''k__B|t__SGB1'' @ TAB @ ''2|'' @ TAB @ ''0.0625'' @ TAB @ ''\<newline>'',
      ''k__B|t__SGB2'' @ TAB @ ''2|'' @ TAB @ ''63.9375'' @ TAB @ ''\<newline>'']"

definition dyadic_output :: "out_line list" where
  "dyadic_output =
     [GRow ''d__A'' 100,
      GRow ''d__A;p__B'' 100,
      GRow ''d__A;p__B;c__C'' 100,
      GRow ''d__A;p__B;c__C;o__D'' 100,
      GRow ''d__A;p__B;c__C;o__D;f__E'' 100,
      GRow ''d__A;p__B;c__C;o__D;f__E;g__F'' 100,
      GRow ''d__A;p__B;c__C;o__D;f__E;g__F;s__G1'' (9765625 / 100000000),
      GRow ''d__A;p__B;c__C;o__D;f__E;g__F;s__G2'' (9990234375 / 100000000)]"

definition dyadic_state :: gtdb_state where
  "dyadic_state =
     \<lparr>unclassified = 0,
      abundances = [[], [], [], [], [], [],
        [(''d__A;p__B;c__C;o__D;f__E;g__F;s__G1'', 625 / 10000),
         (''d__A;p__B;c__C;o__D;f__E;g__F;s__G2'', 639375 / 10000)]],
      gout = []\<rparr>"

text \<open>
  A non-merged profile of the newer release with an unclassified row of 25.0 and one
  data row of 25.0.
\<close>

definition quarter_input :: "string list" where
  "quarter_input =
     [''#mpa_vJun23_CHOCOPhlAnSGB_202307\<newline>'',
      ''UNCLASSIFIED'' @ TAB @ ''-1'' @ TAB @ ''25.0'' @ TAB @ ''\<newline>'',
      ''k__B|p__P|c__C|o__O|f__F|g__G|s__S|t__SGB1'' @ TAB @ ''2|3|4|5|6|7|8|'' @ TAB @ ''25.0''
        @ TAB @ ''\<newline>'']"

definition quarter_output :: "out_line list" where
  "quarter_output =
     [Text ''#mpa_vJun23_CHOCOPhlAnSGB_202403\<newline>'',
      Text (''UNCLASSIFIED'' @ TAB @ ''-1'' @ TAB @ ''25.0'' @ TAB @ ''\<newline>''),
      Row ''k__B'' ''2'' 50 '''',
      Row ''k__B|p__P'' ''2|3'' 50 '''',
      Row ''k__B|p__P|c__C'' ''2|3|4'' 50 '''',
      Row ''k__B|p__P|c__C|o__O'' ''2|3|4|5'' 50 '''',
      Row ''k__B|p__P|c__C|o__O|f__F'' ''2|3|4|5|6'' 50 '''',
      Row ''k__B|p__P|c__C|o__O|f__F|g__G'' ''2|3|4|5|6|7'' 50 '''',
      Row ''k__B|p__P|c__C|o__O|f__F|g__G|s__S'' ''2|3|4|5|6|7|8'' 50 '''',
      Row ''k__B|p__P|c__C|o__O|f__F|g__G|s__S|t__SGB1'' ''2|3|4|5|6|7|8|'' 50 '''']"

text \<open>
  A merged profile with one sample column: an unclassified value of 25.0 and one data
  row of 25.0; and what the merged branch writes for it.
\<close>

definition merged_quarter_input :: "string list" where
  "merged_quarter_input =
     [''#mpa_vJun23_CHOCOPhlAnSGB_202307\<newline>'',
      ''UNCLASSIFIED'' @ TAB @ ''25.0\<newline>'',
      ''k__B|p__P|c__C|o__O|f__F|g__G|s__S|t__SGB1'' @ TAB @ ''25.0\<newline>'']"

definition merged_quarter_output :: "out_line list" where
  "merged_quarter_output =
     [Text ''#mpa_vJun23_CHOCOPhlAnSGB_202403\<newline>'',
      Text (''UNCLASSIFIED'' @ TAB @ ''25.0\<newline>''),
      MRow ''k__B'' [Fin 50],
      MRow ''k__B|p__P'' [Fin 100],
      MRow ''k__B|p__P|c__C'' [Fin 200],
      MRow ''k__B|p__P|c__C|o__O'' [Fin 400],
      MRow ''k__B|p__P|c__C|o__O|f__F'' [Fin 800],
      MRow ''k__B|p__P|c__C|o__O|f__F|g__G'' [Fin 1600],
      MRow ''k__B|p__P|c__C|o__O|f__F|g__G|s__S'' [Fin 3200],
      MRow ''k__B|p__P|c__C|o__O|f__F|g__G|s__S|t__SGB1'' [Fin 6400]]"

definition levels_linked :: "nat \<Rightarrow> (string, nat) dict list \<Rightarrow> bool" where
  "levels_linked k tlv \<longleftrightarrow>
     length tlv = 8 \<and> (\<forall>j<7 - k. tlv ! j = []) \<and>
     (\<forall>j. 7 - k \<le> j \<and> j < 7 \<longrightarrow> fst ` set (tlv ! j) = higher_taxon ` fst ` set (tlv ! Suc j))"

text \<open>
  The lineage cut down to the rank of the table at index \<open>level\<close>: the last \<open>7 - level\<close>
  segments of a leaf lineage are dropped, one for each pass of the aggregation loop.
\<close>

definition ancestor_at :: "nat \<Rightarrow> string \<Rightarrow> string" where
  "ancestor_at level tax = (higher_taxon ^^ (7 - level)) tax"

text \<open>
  The lineages, after the correction of the labels, that the data lines among some
  lines are stored under, when \<open>rel\<close> is the release in effect before the first of them;
  \<open>fix\<close> is the correction of the mode, \<open>fix_labels\<close> or \<open>fix_labels_merged\<close>. The loop
  stops at a line whose correction raises.
\<close>

fun stored_lineages ::
  "(string option \<Rightarrow> string \<Rightarrow> error + string list) \<Rightarrow> string option \<Rightarrow> string list \<Rightarrow> string list" where
  "stored_lineages fix rel [] = []"
| "stored_lineages fix rel (line # rest) =
     (if startswith line ''#mpa_v'' then stored_lineages fix (Some (drop 1 (strip line))) rest
      else if is_data_line line then
        (case fix rel line of
           Inl e \<Rightarrow> []
         | Inr parts \<Rightarrow> take 1 parts @ stored_lineages fix rel rest)
      else stored_lineages fix rel rest)"

text \<open>The sum of \<open>f\<close> over the entries of a table whose lineage satisfies \<open>P\<close>.\<close>

definition lineage_sum :: "(string \<times> 'c \<Rightarrow> real) \<Rightarrow> (string \<Rightarrow> bool) \<Rightarrow> (string, 'c) dict \<Rightarrow> real" where
  "lineage_sum f P d = sum_list (map f (filter (\<lambda>entry. P (fst entry)) d))"

section \<open>Evaluation of the concrete profiles\<close>

lemma float_dec_5: "float_dec ''5.0'' = Some 5"
  by (simp add: float_dec_def strip_def isspace_def is_digit_def)

lemma float_dec_95: "float_dec ''95.0'' = Some 95"
  by (simp add: float_dec_def strip_def isspace_def is_digit_def)

lemma py_round_95: "py_round 95 5 = 95"
  by (simp add: py_round_def)

lemma scenario_load:
  "process_lines float_dec Map.empty init_state scenario_input = Inr scenario_state"
  by (simp add: scenario_input_def scenario_state_def process_line_def init_state_def strip_def
      isspace_def store_leaf_def fix_labels_def fix_jun23_def neg_def float_dec_5 float_dec_95)

lemma scenario_run:
  "fix_relab_mpa4 float_dec Map.empty scenario_input False = Inr scenario_output"
  by (simp add: fix_relab_mpa4_def fix_relab_not_merged_def scenario_load)
     (simp add: scenario_state_def scenario_output_def assign_higher_taxonomic_levels_def
       assign_level_def assign_one_def higher_taxon_def neg_def sum_level_def py_round_95)

section \<open>The reading loop\<close>

lemma split_on_not_Nil [simp]: "split_on c s \<noteq> []"
  by (induction s) (auto split: list.splits)

lemma startswith_hash: "startswith line ''#mpa_v'' \<Longrightarrow> startswith line ''#''"
  by (cases line) auto

lemma process_lines_append:
  "process_lines flt oct st (xs @ ys) =
     (case process_lines flt oct st xs of Inl e \<Rightarrow> Inl e | Inr st' \<Rightarrow> process_lines flt oct st' ys)"
  by (induction xs arbitrary: st) (auto split: sum.splits)

lemma process_lines_merged_append:
  "process_lines_merged flt oct st (xs @ ys) =
     (case process_lines_merged flt oct st xs of Inl e \<Rightarrow> Inl e
      | Inr st' \<Rightarrow> process_lines_merged flt oct st' ys)"
  by (induction xs arbitrary: st) (auto split: sum.splits)

lemma store_leaf_release: "store_leaf flt st parts = Inr st' \<Longrightarrow> release st' = release st \<and> out st' = out st \<and> unclassified_fraction st' = unclassified_fraction st"
  by (auto simp: store_leaf_def split: if_splits option.splits)

lemma store_leaf_merged_release: "store_leaf_merged flt st parts = Inr st' \<Longrightarrow> release st' = release st \<and> out st' = out st \<and> unclassified_fraction st' = unclassified_fraction st"
  by (auto simp: store_leaf_merged_def split: if_splits option.splits list.splits)

lemma process_line_release:
  "process_line flt oct st line = Inr st' \<Longrightarrow> release st' = header_release (release st) [line]"
  by (auto simp: process_line_def Let_def dest: store_leaf_release split: if_splits option.splits sum.splits)

lemma process_line_merged_release:
  "process_line_merged flt oct st line = Inr st' \<Longrightarrow> release st' = header_release (release st) [line]"
  by (auto simp: process_line_merged_def Let_def dest: store_leaf_merged_release split: if_splits option.splits sum.splits)

lemma header_release_append: "header_release rel (xs @ ys) = header_release (header_release rel xs) ys"
  by (induction xs arbitrary: rel) auto

lemma process_lines_release:
  "process_lines flt oct st lines = Inr st' \<Longrightarrow> release st' = header_release (release st) lines"
proof (induction lines arbitrary: st)
  case Nil then show ?case by simp
next
  case (Cons l ls)
  then obtain st1 where 1: "process_line flt oct st l = Inr st1" and 2: "process_lines flt oct st1 ls = Inr st'"
    by (auto split: sum.splits)
  from process_line_release[OF 1] Cons.IH[OF 2] show ?case by simp
qed

lemma process_lines_merged_release:
  "process_lines_merged flt oct st lines = Inr st' \<Longrightarrow> release st' = header_release (release st) lines"
proof (induction lines arbitrary: st)
  case Nil then show ?case by simp
next
  case (Cons l ls)
  then obtain st1 where 1: "process_line_merged flt oct st l = Inr st1" and 2: "process_lines_merged flt oct st1 ls = Inr st'"
    by (auto split: sum.splits)
  from process_line_merged_release[OF 1] Cons.IH[OF 2] show ?case by simp
qed

lemma process_line_data:
  "is_data_line line \<Longrightarrow>
   process_line flt oct st line =
     (case fix_labels oct (release st) line of Inl e \<Rightarrow> Inl e | Inr parts \<Rightarrow> store_leaf flt st parts)"
  by (simp add: is_data_line_def process_line_def)

lemma process_line_merged_data:
  "is_data_line line \<Longrightarrow>
   process_line_merged flt oct st line =
     (case fix_labels_merged oct (release st) line of Inl e \<Rightarrow> Inl e | Inr parts \<Rightarrow> store_leaf_merged flt st parts)"
  by (simp add: is_data_line_def process_line_merged_def)

lemma unrecognized_line:
  assumes "is_data_line line" "rel \<noteq> Some ''mpa_vJun23_CHOCOPhlAnSGB_202307''" "rel \<noteq> Some ''mpa_vOct22_CHOCOPhlAnSGB_202212''"
  shows "fix_labels oct rel line = Inl UnrecognizedRelease" "fix_labels_merged oct rel line = Inl UnrecognizedRelease"
  using assms by (simp_all add: fix_labels_def fix_labels_merged_def error_exit_def)

lemma process_lines_unrecognized:
  assumes "is_data_line line"
    and "header_release (release st) pre \<noteq> Some ''mpa_vJun23_CHOCOPhlAnSGB_202307''"
    and "header_release (release st) pre \<noteq> Some ''mpa_vOct22_CHOCOPhlAnSGB_202212''"
  shows "process_lines flt oct st (pre @ line # post) =
     (case process_lines flt oct st pre of Inl e \<Rightarrow> Inl e | Inr st' \<Rightarrow> Inl UnrecognizedRelease)"
  using assms
  by (auto simp: process_lines_append process_line_data unrecognized_line
      dest!: process_lines_release split: sum.splits)

lemma process_lines_merged_unrecognized:
  assumes "is_data_line line"
    and "header_release (release st) pre \<noteq> Some ''mpa_vJun23_CHOCOPhlAnSGB_202307''"
    and "header_release (release st) pre \<noteq> Some ''mpa_vOct22_CHOCOPhlAnSGB_202212''"
  shows "process_lines_merged flt oct st (pre @ line # post) =
     (case process_lines_merged flt oct st pre of Inl e \<Rightarrow> Inl e | Inr st' \<Rightarrow> Inl UnrecognizedRelease)"
  using assms
  by (auto simp: process_lines_merged_append process_line_merged_data unrecognized_line
      dest!: process_lines_merged_release split: sum.splits)

section \<open>What the reading loops write\<close>

lemma process_line_out:
  "process_line flt oct st line = Inr st' \<Longrightarrow> out st' = out st @ written_while_reading line"
  by (auto simp: process_line_def written_while_reading_def Let_def dest: store_leaf_release
      split: if_splits option.splits sum.splits)

lemma process_line_merged_out:
  "process_line_merged flt oct st line = Inr st' \<Longrightarrow> out st' = out st @ written_while_reading line"
  by (auto simp: process_line_merged_def written_while_reading_def Let_def
      dest: store_leaf_merged_release split: if_splits option.splits sum.splits)

lemma process_lines_out:
  "process_lines flt oct st lines = Inr st' \<Longrightarrow>
   out st' = out st @ concat (map written_while_reading lines)"
proof (induction lines arbitrary: st)
  case Nil then show ?case by simp
next
  case (Cons l ls)
  then obtain st1 where 1: "process_line flt oct st l = Inr st1"
    and 2: "process_lines flt oct st1 ls = Inr st'"
    by (auto split: sum.splits)
  from process_line_out[OF 1] Cons.IH[OF 2] show ?case by simp
qed

lemma process_lines_merged_out:
  "process_lines_merged flt oct st lines = Inr st' \<Longrightarrow>
   out st' = out st @ concat (map written_while_reading lines)"
proof (induction lines arbitrary: st)
  case Nil then show ?case by simp
next
  case (Cons l ls)
  then obtain st1 where 1: "process_line_merged flt oct st l = Inr st1"
    and 2: "process_lines_merged flt oct st1 ls = Inr st'"
    by (auto split: sum.splits)
  from process_line_merged_out[OF 1] Cons.IH[OF 2] show ?case by simp
qed

lemma gtdb_line_out:
  "gtdb_line flt tbl st line = Inr st' \<Longrightarrow> gout st' = gout st @ gtdb_written_while_reading flt line"
  by (auto simp: gtdb_line_def gtdb_written_while_reading_def Let_def
      split: if_splits option.splits sum.splits)

lemma gtdb_lines_out:
  "gtdb_lines flt tbl st lines = Inr st' \<Longrightarrow>
   gout st' = gout st @ concat (map (gtdb_written_while_reading flt) lines)"
proof (induction lines arbitrary: st)
  case Nil then show ?case by simp
next
  case (Cons l ls)
  then obtain st1 where 1: "gtdb_line flt tbl st l = Inr st1"
    and 2: "gtdb_lines flt tbl st1 ls = Inr st'"
    by (auto split: sum.splits)
  from gtdb_line_out[OF 1] Cons.IH[OF 2] show ?case by simp
qed

lemma gtdb_line_unclassified:
  "gtdb_line flt tbl st line = Inr st' \<Longrightarrow> startswith line ''UNCLASSIFIED'' \<Longrightarrow>
   \<exists>u. flt (split_on (CHR 0x09) (strip line) ! 2) = Some u
       \<and> gtdb_written_while_reading flt line = [GUncl u]"
  by (cases line) (auto simp: gtdb_line_def gtdb_written_while_reading_def Let_def
      split: if_splits option.splits sum.splits)

lemma gtdb_lines_unclassified:
  "gtdb_lines flt tbl st lines = Inr st' \<Longrightarrow> line \<in> set lines \<Longrightarrow> startswith line ''UNCLASSIFIED'' \<Longrightarrow>
   \<exists>u. flt (split_on (CHR 0x09) (strip line) ! 2) = Some u
       \<and> gtdb_written_while_reading flt line = [GUncl u]"
proof (induction lines arbitrary: st)
  case Nil then show ?case by simp
next
  case (Cons l ls)
  then obtain st1 where 1: "gtdb_line flt tbl st l = Inr st1"
    and 2: "gtdb_lines flt tbl st1 ls = Inr st'"
    by (auto split: sum.splits)
  show ?case
  proof (cases "line = l")
    case True
    with 1 Cons.prems(3) show ?thesis by (auto dest: gtdb_line_unclassified)
  next
    case False
    with Cons.prems have "line \<in> set ls" by simp
    from Cons.IH[OF 2 this Cons.prems(3)] show ?thesis .
  qed
qed

lemma written_unclassified:
  "startswith line ''UNCLASSIFIED'' \<Longrightarrow> written_while_reading line = [Text line]"
  by (cases line) (auto simp: written_while_reading_def)

lemma fix_relab_mpa4_prefix:
  assumes "fix_relab_mpa4 flt oct lines merged = Inr outp"
  shows "\<exists>rows. outp = concat (map written_while_reading lines) @ rows"
proof (cases merged)
  case False
  with assms obtain st rows where "process_lines flt oct init_state lines = Inr st" "outp = out st @ rows"
    by (auto simp: fix_relab_mpa4_def fix_relab_not_merged_def split: sum.splits)
  with process_lines_out[of flt oct init_state lines st] show ?thesis
    by (auto simp: init_state_def)
next
  case True
  with assms obtain st rows where "process_lines_merged flt oct init_mstate lines = Inr st" "outp = out st @ rows"
    by (auto simp: fix_relab_mpa4_def fix_relab_merged_def Let_def split: sum.splits option.splits)
  with process_lines_merged_out[of flt oct init_mstate lines st] show ?thesis
    by (auto simp: init_mstate_def)
qed

lemma get_gtdb_profile_prefix:
  assumes "get_gtdb_profile flt tbl lines = Inr outp"
  shows "\<exists>sgb2gtdb st rows. gtdb_lines flt sgb2gtdb gtdb_init lines = Inr st
     \<and> outp = concat (map (gtdb_written_while_reading flt) lines) @ rows"
proof -
  from assms obtain m st rows where 1: "gtdb_lines flt m gtdb_init lines = Inr st" and 2: "outp = gout st @ rows"
    by (auto simp: get_gtdb_profile_def split: sum.splits)
  from gtdb_lines_out[OF 1] 2 have "outp = concat (map (gtdb_written_while_reading flt) lines) @ rows"
    by (simp add: gtdb_init_def)
  with 1 show ?thesis by blast
qed

lemma gtdb_scenario_read:
  "read_sgb2gtdb Map.empty gtdb_scenario_table = Inr [''SGB1'' \<mapsto> ''d__A;p__B;c__C;o__D;f__E;g__F;s__G'']"
  by (simp add: gtdb_scenario_table_def strip_def isspace_def)

lemma gtdb_scenario_load:
  "gtdb_lines float_dec [''SGB1'' \<mapsto> ''d__A;p__B;c__C;o__D;f__E;g__F;s__G''] gtdb_init gtdb_scenario_input =
     Inr \<lparr>unclassified = 5,
          abundances = [[], [], [], [], [], [], [(''d__A;p__B;c__C;o__D;f__E;g__F;s__G'', 95)]],
          gout = take 3 gtdb_scenario_output\<rparr>"
  by (simp add: gtdb_scenario_input_def gtdb_scenario_output_def gtdb_line_def gtdb_init_def
      strip_def isspace_def dict_add_def float_dec_5 float_dec_95)

lemma gtdb_scenario_run:
  "get_gtdb_profile float_dec gtdb_scenario_table gtdb_scenario_input = Inr gtdb_scenario_output"
  by (simp add: get_gtdb_profile_def gtdb_scenario_read gtdb_scenario_load)
     (simp add: gtdb_scenario_output_def gtdb_aggregate_def gtdb_level_def gtdb_add_one_def
       gtdb_new_tax_def dict_add_def total4level_def)

lemma str_dec_5: "str_dec 5 = ''5.0''"
  by code_simp

section \<open>Replacement\<close>

lemma replace_absent: "old \<noteq> [] \<Longrightarrow> \<not> contains s old \<Longrightarrow> replace s old new = s"
  by (induction s) auto

lemma fix_jun23_cases:
  "fix_jun23 line =
     (if contains line ''p__Bacillota'' then replace line ''p__Bacillota'' ''p__Firmicutes''
      else replace line ''f__Saccharomycetales_unclassified'' ''f__Debaryomycetaceae'')"
  by (simp add: fix_jun23_def replace_absent)

lemma float_dec_3: "float_dec ''3.0'' = Some 3"
  by (simp add: float_dec_def strip_def isspace_def is_digit_def)

lemma both_renames_data: "is_data_line both_renames_line"
  by (simp add: is_data_line_def both_renames_line_def)

lemma family_rename_data: "is_data_line family_rename_line"
  by (simp add: is_data_line_def family_rename_line_def)

lemma both_renames_process:
  "process_line float_dec Map.empty jun23_state both_renames_line =
     Inr (jun23_state\<lparr>taxa_levs := [[], [], [], [], [], [], [],
        [(''d__E|p__Firmicutes|f__Saccharomycetales_unclassified|t__SGB9'', Cell ''1|'' 3 '''')]]\<rparr>)"
  by (simp add: process_line_data[OF both_renames_data] fix_labels_def jun23_state_def)
     (simp add: both_renames_line_def fix_jun23_def strip_def isspace_def store_leaf_def
       float_dec_3 neg_def init_state_def)

section \<open>The leaf table\<close>

lemma dict_set_twice: "dict_set (dict_set d k a) k b = dict_set d k b"
  by (induction d) auto

lemma map_of_dict_set: "map_of (dict_set d k v) k' = (if k' = k then Some v else map_of d k')"
  by (induction d) auto

lemma store_leaf_length:
  "store_leaf flt st parts = Inr st' \<Longrightarrow> length (taxa_levs st') = length (taxa_levs st)"
  by (auto simp: store_leaf_def split: if_splits option.splits)

lemma process_line_length:
  "process_line flt oct st line = Inr st' \<Longrightarrow> length (taxa_levs st') = length (taxa_levs st)"
  by (auto simp: process_line_def Let_def dest: store_leaf_length
      split: if_splits option.splits sum.splits)

lemma process_lines_length:
  "process_lines flt oct st lines = Inr st' \<Longrightarrow> length (taxa_levs st') = length (taxa_levs st)"
proof (induction lines arbitrary: st)
  case Nil then show ?case by simp
next
  case (Cons l ls)
  then obtain st1 where 1: "process_line flt oct st l = Inr st1"
    and 2: "process_lines flt oct st1 ls = Inr st'"
    by (auto split: sum.splits)
  from process_line_length[OF 1] Cons.IH[OF 2] show ?case by simp
qed

lemma store_leaf_overwrites:
  assumes "store_leaf flt st p1 = Inr st1" and "p1 ! 0 = p2 ! 0" and "taxa_levs st \<noteq> []"
  shows "store_leaf flt st1 p2 = store_leaf flt st p2"
  using assms
  by (auto simp: store_leaf_def neg_def dict_set_twice split: if_splits option.splits)

lemma store_leaf_value:
  assumes "store_leaf flt st p = Inr st'" and "taxa_levs st \<noteq> []"
  shows "\<exists>v. flt (p ! 2) = Some v \<and>
     map_of (taxa_levs st' ! neg 1 (taxa_levs st')) (p ! 0)
       = Some (Cell (p ! 1) v (if length p = 4 then p ! 3 else ''''))"
  using assms
  by (auto simp: store_leaf_def neg_def map_of_dict_set split: if_splits option.splits)

lemma oct22_lines_data: "is_data_line oct22_line1" "is_data_line oct22_line2"
  by (simp_all add: is_data_line_def oct22_line1_def oct22_line2_def)

lemma oct22_header:
  "process_line float_dec oct22_table init_state ''#mpa_vOct22_CHOCOPhlAnSGB_202212\<newline>''
     = Inr oct22_state"
  by (simp add: process_line_def init_state_def oct22_state_def strip_def isspace_def)

lemma oct22_prefix:
  "process_lines float_dec oct22_table init_state [''#mpa_vOct22_CHOCOPhlAnSGB_202212\<newline>'']
     = Inr oct22_state"
  by (simp add: oct22_header)

lemma oct22_labels:
  "fix_labels oct22_table (release oct22_state) oct22_line1 = Inr [''k__B|p__P|c__C|o__O|f__F|g__G|s__New|t__SGB1'', ''2|3|4|5|6|7|9|'', ''3.0'']"
  "fix_labels oct22_table (release oct22_state) oct22_line2 = Inr [''k__B|p__P|c__C|o__O|f__F|g__G|s__New|t__SGB1'', ''2|3|4|5|6|7|9|'', ''5.0'']"
  by (simp_all add: fix_labels_def oct22_state_def oct22_line1_def oct22_line2_def strip_def
      isspace_def fix_oct22_def oct22_table_def)

lemma oct22_store1:
  "store_leaf float_dec oct22_state [''k__B|p__P|c__C|o__O|f__F|g__G|s__New|t__SGB1'', ''2|3|4|5|6|7|9|'', ''3.0''] =
     Inr (oct22_state\<lparr>taxa_levs := [[], [], [], [], [], [], [],
            [(''k__B|p__P|c__C|o__O|f__F|g__G|s__New|t__SGB1'', Cell ''2|3|4|5|6|7|9|'' 3 '''')]]\<rparr>)"
  by (simp add: store_leaf_def oct22_state_def neg_def float_dec_3)

lemma py_round_100: "py_round 100 5 = 100"
  by (simp add: py_round_def)

lemma oct22_later_only:
  "fix_relab_mpa4 float_dec oct22_table
     ([''#mpa_vOct22_CHOCOPhlAnSGB_202212\<newline>''] @ oct22_line2 # []) False =
   Inr [Text ''#mpa_vOct22_CHOCOPhlAnSGB_202403\<newline>'',
        Row ''k__B'' ''2'' 100 [],
        Row ''k__B|p__P'' ''2|3'' 100 [],
        Row ''k__B|p__P|c__C'' ''2|3|4'' 100 [],
        Row ''k__B|p__P|c__C|o__O'' ''2|3|4|5'' 100 [],
        Row ''k__B|p__P|c__C|o__O|f__F'' ''2|3|4|5|6'' 100 [],
        Row ''k__B|p__P|c__C|o__O|f__F|g__G'' ''2|3|4|5|6|7'' 100 [],
        Row ''k__B|p__P|c__C|o__O|f__F|g__G|s__New'' ''2|3|4|5|6|7|9'' 100 [],
        Row ''k__B|p__P|c__C|o__O|f__F|g__G|s__New|t__SGB1'' ''2|3|4|5|6|7|9|'' 100 []]"
  by (simp add: fix_relab_mpa4_def fix_relab_not_merged_def oct22_header
        process_line_data[OF oct22_lines_data(2)] oct22_labels)
     (simp add: store_leaf_def oct22_state_def float_dec_5 neg_def assign_higher_taxonomic_levels_def
        assign_level_def assign_one_def higher_taxon_def sum_level_def py_round_100)

section \<open>The writers\<close>

lemma foldl_add_sum_list:
  "foldl (\<lambda>acc entry. acc + f entry) (a::real) d = a + sum_list (map f d)"
  by (induction d arbitrary: a) auto

lemma sum_level_sum_list: "sum_level d = sum_list (map (\<lambda>entry. cval (snd entry)) d)"
  by (simp add: sum_level_def foldl_add_sum_list)

lemma write_level_nonzero:
  "t \<noteq> 0 \<Longrightarrow> write_level t d =
     Inr (map (\<lambda>entry. Row (fst entry) (cname (snd entry))
                   (py_round (100 * cval (snd entry) / t) 5) (cextra (snd entry))) d)"
  by (induction d) auto

lemma write_level_zero:
  "write_level 0 d = (if d = [] then Inr [] else Inl ZeroDivisionError)"
  by (cases d) auto

lemma write_level_rows:
  "write_level (sum_level d + u) d =
     (if d = [] \<or> sum_level d + u \<noteq> 0 then Inr (level_rows u d) else Inl ZeroDivisionError)"
proof (cases "sum_level d + u = 0")
  case True
  then show ?thesis by (simp add: write_level_zero level_rows_def)
next
  case False
  then show ?thesis by (simp add: write_level_nonzero level_rows_def)
qed

lemma write_levels_rows:
  "write_levels u ds =
     (if \<forall>d\<in>set ds. d = [] \<or> sum_level d + u \<noteq> 0
      then Inr (concat (map (level_rows u) ds)) else Inl ZeroDivisionError)"
  by (induction ds) (simp_all add: write_level_rows)

lemma gtdb_write_level_nonzero:
  "t \<noteq> 0 \<Longrightarrow> gtdb_write_level t d = Inr (map (\<lambda>entry. GRow (fst entry) (snd entry * 100 / t)) d)"
  by (induction d) auto

lemma gtdb_write_level_zero:
  "gtdb_write_level 0 d = (if d = [] then Inr [] else Inl ZeroDivisionError)"
  by (cases d) auto

lemma gtdb_write_level_rows:
  "gtdb_write_level (total4level d) d =
     (if d = [] \<or> total4level d \<noteq> 0 then Inr (gtdb_level_rows d) else Inl ZeroDivisionError)"
proof (cases "total4level d = 0")
  case True
  then show ?thesis by (simp add: gtdb_write_level_zero gtdb_level_rows_def)
next
  case False
  then show ?thesis by (simp add: gtdb_write_level_nonzero gtdb_level_rows_def)
qed

lemma gtdb_write_levels_rows:
  "gtdb_write_levels ds =
     (if \<forall>d\<in>set ds. d = [] \<or> total4level d \<noteq> 0
      then Inr (concat (map gtdb_level_rows ds)) else Inl ZeroDivisionError)"
  by (induction ds) (simp_all add: gtdb_write_level_rows)

lemma fix_relab_not_merged_output:
  assumes "process_lines flt oct init_state lines = Inr st"
    and "fix_relab_mpa4 flt oct lines False = Inr outp"
  shows "outp = concat (map written_while_reading lines) @
           concat (map (level_rows (unclassified_fraction st))
                     (assign_higher_taxonomic_levels (taxa_levs st)))"
    and "\<forall>d\<in>set (assign_higher_taxonomic_levels (taxa_levs st)).
           d = [] \<or> sum_level d + unclassified_fraction st \<noteq> 0"
proof -
  from assms obtain rows where w: "write_levels (unclassified_fraction st)
      (assign_higher_taxonomic_levels (taxa_levs st)) = Inr rows" and o: "outp = out st @ rows"
    by (auto simp: fix_relab_mpa4_def fix_relab_not_merged_def split: sum.splits)
  from process_lines_out[OF assms(1)] have "out st = concat (map written_while_reading lines)"
    by (simp add: init_state_def)
  with w o show "outp = concat (map written_while_reading lines) @
           concat (map (level_rows (unclassified_fraction st))
                     (assign_higher_taxonomic_levels (taxa_levs st)))"
    by (simp add: write_levels_rows split: if_splits)
  from w show "\<forall>d\<in>set (assign_higher_taxonomic_levels (taxa_levs st)).
           d = [] \<or> sum_level d + unclassified_fraction st \<noteq> 0"
    by (simp add: write_levels_rows split: if_splits)
qed

lemma get_gtdb_profile_output:
  assumes "read_sgb2gtdb Map.empty tbl = Inr sgb2gtdb"
    and "gtdb_lines flt sgb2gtdb gtdb_init lines = Inr st"
    and "get_gtdb_profile flt tbl lines = Inr outp"
  shows "outp = concat (map (gtdb_written_while_reading flt) lines) @
           concat (map gtdb_level_rows (gtdb_aggregate (abundances st)))"
    and "\<forall>d\<in>set (gtdb_aggregate (abundances st)). d = [] \<or> total4level d \<noteq> 0"
proof -
  from assms obtain rows where w: "gtdb_write_levels (gtdb_aggregate (abundances st)) = Inr rows"
    and o: "outp = gout st @ rows"
    by (auto simp: get_gtdb_profile_def split: sum.splits)
  from gtdb_lines_out[OF assms(2)] have "gout st = concat (map (gtdb_written_while_reading flt) lines)"
    by (simp add: gtdb_init_def)
  with w o show "outp = concat (map (gtdb_written_while_reading flt) lines) @
           concat (map gtdb_level_rows (gtdb_aggregate (abundances st)))"
    by (simp add: gtdb_write_levels_rows split: if_splits)
  from w show "\<forall>d\<in>set (gtdb_aggregate (abundances st)). d = [] \<or> total4level d \<noteq> 0"
    by (simp add: gtdb_write_levels_rows split: if_splits)
qed

section \<open>Rounding\<close>

lemma py_round_error: "\<bar>py_round x n - x\<bar> \<le> 1 / (2 * 10 ^ n)"
proof -
  define y where "y = x * 10 ^ n"
  define f where "f = \<lfloor>y\<rfloor>"
  define d where "d = y - of_int f"
  define r :: int where "r = (if d < 1 / 2 then f else if 1 / 2 < d then f + 1
                 else if even f then f else f + 1)"
  have d0: "0 \<le> d" and d1: "d < 1"
    unfolding d_def f_def by linarith+
  have "\<bar>of_int r - y\<bar> \<le> 1 / 2"
    unfolding r_def using d0 d1 by (auto simp: d_def)
  moreover have "py_round x n = of_int r / 10 ^ n"
    by (simp add: py_round_def Let_def r_def d_def f_def y_def)
  moreover have "x = y / 10 ^ n" by (simp add: y_def)
  ultimately have "\<bar>py_round x n - x\<bar> = \<bar>of_int r - y\<bar> / 10 ^ n"
    by (simp add: diff_divide_distrib[symmetric] del: of_int_diff)
  also have "\<dots> \<le> (1 / 2) / 10 ^ n"
    using \<open>\<bar>of_int r - y\<bar> \<le> 1 / 2\<close> by (intro divide_right_mono) auto
  finally show ?thesis by simp
qed

lemma sum_list_error:
  fixes f g :: "'a \<Rightarrow> real"
  assumes "\<And>x. x \<in> set xs \<Longrightarrow> \<bar>f x - g x\<bar> \<le> e"
  shows "\<bar>sum_list (map f xs) - sum_list (map g xs)\<bar> \<le> real (length xs) * e"
  using assms
proof (induction xs)
  case Nil then show ?case by simp
next
  case (Cons a xs)
  have "\<bar>f a - g a\<bar> \<le> e" using Cons.prems by simp
  moreover have "\<bar>sum_list (map f xs) - sum_list (map g xs)\<bar> \<le> real (length xs) * e"
    using Cons by simp
  ultimately show ?case by (simp add: algebra_simps)
qed

lemma sum_list_scaled:
  "sum_list (map (\<lambda>entry. c * f entry / t) d) = c * sum_list (map f d) / (t::real)"
proof -
  have "sum_list (map (\<lambda>entry. c * f entry / t) d) = sum_list (map (\<lambda>entry. (c / t) * f entry) d)"
    by simp
  also have "\<dots> = (c / t) * sum_list (map f d)"
    by (rule sum_list_const_mult)
  also have "\<dots> = c * sum_list (map f d) / t"
    by simp
  finally show ?thesis .
qed

lemma row_values_level_rows:
  "row_values (level_rows u d) =
     map (\<lambda>entry. py_round (100 * cval (snd entry) / (sum_level d + u)) 5) d"
  by (simp add: row_values_def level_rows_def comp_def)

lemma row_values_gtdb_level_rows:
  "row_values (gtdb_level_rows d) = map (\<lambda>entry. snd entry * 100 / total4level d) d"
  by (simp add: row_values_def gtdb_level_rows_def comp_def)

lemma level_rows_conservation:
  assumes "sum_level d + u \<noteq> 0"
  shows "\<bar>sum_list (row_values (level_rows u d)) + 100 * u / (sum_level d + u) - 100\<bar>
           \<le> real (length d) * (5 / 10 ^ 6)"
proof -
  define T where "T = sum_level d + u"
  define f where "f = (\<lambda>entry::string \<times> cell. py_round (100 * cval (snd entry) / T) 5)"
  define g where "g = (\<lambda>entry::string \<times> cell. 100 * cval (snd entry) / T)"
  have T: "T \<noteq> 0" using assms by (simp add: T_def)
  have "sum_list (map g d) = 100 * sum_level d / T"
    unfolding g_def sum_level_sum_list by (rule sum_list_scaled)
  moreover have "100 * sum_level d / T + 100 * u / T = 100 * T / T"
    unfolding T_def by (simp only: add_divide_distrib[symmetric] distrib_left[symmetric])
  ultimately have g: "sum_list (map g d) + 100 * u / T = 100"
    using T by simp
  have "\<And>x. \<bar>f x - g x\<bar> \<le> 5 / 10 ^ 6"
    unfolding f_def g_def using py_round_error[of _ 5] by simp
  then have "\<bar>sum_list (map f d) - sum_list (map g d)\<bar> \<le> real (length d) * (5 / 10 ^ 6)"
    by (intro sum_list_error) simp
  with g have "\<bar>sum_list (map f d) + 100 * u / T - 100\<bar> \<le> real (length d) * (5 / 10 ^ 6)"
    by linarith
  then show ?thesis
    unfolding row_values_level_rows f_def T_def .
qed

lemma gtdb_level_rows_sum:
  assumes "total4level d \<noteq> 0"
  shows "sum_list (row_values (gtdb_level_rows d)) = 100"
proof -
  have "(\<lambda>entry::string \<times> real. snd entry * 100 / total4level d)
      = (\<lambda>entry. 100 * snd entry / total4level d)"
    by (simp add: fun_eq_iff)
  then have "sum_list (map (\<lambda>entry. snd entry * 100 / total4level d) d)
      = 100 * sum_list (map snd d) / total4level d"
    by (simp only: sum_list_scaled)
  with assms show ?thesis
    by (simp add: row_values_gtdb_level_rows total4level_def)
qed

section \<open>Aggregation\<close>

lemma map_fst_dict_set: "set (map fst (dict_set d k v)) = insert k (set (map fst d))"
  by (induction d k v rule: dict_set.induct) (simp_all add: insert_commute)

lemma keys_dict_set: "fst ` set (dict_set d k v) = insert k (fst ` set d)"
  using map_fst_dict_set[of d k v] by simp

lemma value_at_dict_set: "value_at (dict_set d k c) g = (if g = k then cval c else value_at d g)"
  by (simp add: value_at_def map_of_dict_set)


lemma value_at_assign_one:
  "value_at (assign_one higher entry) g =
     value_at higher g + (if higher_taxon (fst entry) = g then cval (snd entry) else 0)"
  by (auto simp: assign_one_def Let_def value_at_dict_set split: option.splits)
     (simp_all add: value_at_def)

lemma value_at_assign:
  "value_at (foldl assign_one higher lower) g =
     value_at higher g
     + sum_list (map (\<lambda>entry. cval (snd entry)) (filter (\<lambda>entry. higher_taxon (fst entry) = g) lower))"
  by (induction lower arbitrary: higher) (simp_all add: value_at_assign_one)

lemma keys_assign_one:
  "fst ` set (assign_one higher entry) = insert (higher_taxon (fst entry)) (fst ` set higher)"
  by (simp add: assign_one_def Let_def keys_dict_set split: option.splits)

lemma keys_assign:
  "fst ` set (foldl assign_one higher lower) = fst ` set higher \<union> higher_taxon ` fst ` set lower"
  by (induction lower arbitrary: higher) (auto simp: keys_assign_one)



lemma keys_gtdb_add_one:
  "fst ` set (gtdb_add_one higher entry) = insert (gtdb_new_tax (fst entry)) (fst ` set higher)"
  by (simp add: gtdb_add_one_def dict_add_def keys_dict_set split: option.splits)

lemma keys_gtdb_add:
  "fst ` set (foldl gtdb_add_one higher lower) = fst ` set higher \<union> gtdb_new_tax ` fst ` set lower"
  by (induction lower arbitrary: higher) (auto simp: keys_gtdb_add_one)

lemma assign_higher_chain:
  "assign_higher_taxonomic_levels [[], [], [], [], [], [], [], L] =
     (let t6 = foldl assign_one [] L; t5 = foldl assign_one [] t6; t4 = foldl assign_one [] t5;
          t3 = foldl assign_one [] t4; t2 = foldl assign_one [] t3; t1 = foldl assign_one [] t2;
          t0 = foldl assign_one [] t1
      in [t0, t1, t2, t3, t4, t5, t6, L])"
  by (simp add: assign_higher_taxonomic_levels_def assign_level_def neg_def Let_def)

lemma gtdb_aggregate_chain:
  "gtdb_aggregate [[], [], [], [], [], [], L] =
     (let t5 = foldl gtdb_add_one [] L; t4 = foldl gtdb_add_one [] t5; t3 = foldl gtdb_add_one [] t4;
          t2 = foldl gtdb_add_one [] t3; t1 = foldl gtdb_add_one [] t2; t0 = foldl gtdb_add_one [] t1
      in [t0, t1, t2, t3, t4, t5, L])"
  by (simp add: gtdb_aggregate_def gtdb_level_def Let_def)

lemma store_leaf_shape:
  "store_leaf flt st parts = Inr st' \<Longrightarrow> taxa_levs st = [[], [], [], [], [], [], [], L] \<Longrightarrow>
   \<exists>L'. taxa_levs st' = [[], [], [], [], [], [], [], L']"
  by (auto simp: store_leaf_def neg_def split: if_splits option.splits)

lemma process_line_shape:
  "process_line flt oct st line = Inr st' \<Longrightarrow> taxa_levs st = [[], [], [], [], [], [], [], L] \<Longrightarrow>
   \<exists>L'. taxa_levs st' = [[], [], [], [], [], [], [], L']"
  by (auto simp: process_line_def Let_def dest: store_leaf_shape
      split: if_splits option.splits sum.splits)

lemma process_lines_shape:
  "process_lines flt oct st lines = Inr st' \<Longrightarrow> taxa_levs st = [[], [], [], [], [], [], [], L] \<Longrightarrow>
   \<exists>L'. taxa_levs st' = [[], [], [], [], [], [], [], L']"
proof (induction lines arbitrary: st L)
  case Nil then show ?case by simp
next
  case (Cons l ls)
  then obtain st1 where 1: "process_line flt oct st l = Inr st1"
    and 2: "process_lines flt oct st1 ls = Inr st'"
    by (auto split: sum.splits)
  from process_line_shape[OF 1 Cons.prems(2)] obtain L1 where
    "taxa_levs st1 = [[], [], [], [], [], [], [], L1]" by blast
  from Cons.IH[OF 2 this] show ?case .
qed

lemma gtdb_line_shape:
  "gtdb_line flt tbl st line = Inr st' \<Longrightarrow> abundances st = [[], [], [], [], [], [], L] \<Longrightarrow>
   \<exists>L'. abundances st' = [[], [], [], [], [], [], L']"
  by (auto simp: gtdb_line_def Let_def split: if_splits option.splits sum.splits)

lemma gtdb_lines_shape:
  "gtdb_lines flt tbl st lines = Inr st' \<Longrightarrow> abundances st = [[], [], [], [], [], [], L] \<Longrightarrow>
   \<exists>L'. abundances st' = [[], [], [], [], [], [], L']"
proof (induction lines arbitrary: st L)
  case Nil then show ?case by simp
next
  case (Cons l ls)
  then obtain st1 where 1: "gtdb_line flt tbl st l = Inr st1"
    and 2: "gtdb_lines flt tbl st1 ls = Inr st'"
    by (auto split: sum.splits)
  from gtdb_line_shape[OF 1 Cons.prems(2)] obtain L1 where
    "abundances st1 = [[], [], [], [], [], [], L1]" by blast
  from Cons.IH[OF 2 this] show ?case .
qed

lemma assign_higher_keys:
  assumes "taxa_levs st = [[], [], [], [], [], [], [], L]" and "level < 7"
  shows "fst ` set (assign_higher_taxonomic_levels (taxa_levs st) ! level)
       = higher_taxon ` fst ` set (assign_higher_taxonomic_levels (taxa_levs st) ! Suc level)"
proof -
  from assms(2) consider "level = 0" | "level = 1" | "level = 2" | "level = 3" | "level = 4"
    | "level = 5" | "level = 6" by linarith
  then show ?thesis
    by cases (simp_all add: assms(1) assign_higher_chain Let_def keys_assign)
qed

lemma gtdb_aggregate_keys:
  assumes "abundances st = [[], [], [], [], [], [], L]" and "level < 6"
  shows "fst ` set (gtdb_aggregate (abundances st) ! level)
       = gtdb_new_tax ` fst ` set (gtdb_aggregate (abundances st) ! Suc level)"
proof -
  from assms(2) consider "level = 0" | "level = 1" | "level = 2" | "level = 3" | "level = 4"
    | "level = 5" by linarith
  then show ?thesis
    by cases (simp_all add: assms(1) gtdb_aggregate_chain Let_def keys_gtdb_add)
qed

section \<open>The order of the rows\<close>

lemma row_lineages_Nil: "row_lineages [] = []"
  by (simp add: row_lineages_def)

lemma row_lineages_append: "row_lineages (a @ b) = row_lineages a @ row_lineages b"
  by (simp add: row_lineages_def)

lemma row_lineages_written_line: "row_lineages (written_while_reading line) = []"
  by (cases "startswith line ''#mpa_v''"; cases "startswith line ''#''";
      cases "startswith line ''clade_name''"; cases "startswith line ''UNCLASSIFIED''")
     (simp_all add: row_lineages_def written_while_reading_def)

lemma row_lineages_written: "row_lineages (concat (map written_while_reading lines)) = []"
  by (induction lines) (simp_all add: row_lineages_Nil row_lineages_append row_lineages_written_line)

lemma row_lineages_gtdb_written_line: "row_lineages (gtdb_written_while_reading flt line) = []"
  by (cases "startswith line ''#mpa_''"; cases "startswith line ''UNCLASSIFIED''";
      cases "flt (split_on (CHR 0x09) (strip line) ! 2)")
     (simp_all add: row_lineages_def gtdb_written_while_reading_def)

lemma row_lineages_gtdb_written:
  "row_lineages (concat (map (gtdb_written_while_reading flt) lines)) = []"
  by (induction lines) (simp_all add: row_lineages_Nil row_lineages_append row_lineages_gtdb_written_line)

lemma row_lineages_level_rows: "row_lineages (level_rows u d) = map fst d"
  by (simp add: row_lineages_def level_rows_def comp_def)

lemma row_lineages_gtdb_level_rows: "row_lineages (gtdb_level_rows d) = map fst d"
  by (simp add: row_lineages_def gtdb_level_rows_def comp_def)

lemma row_lineages_levels:
  "row_lineages (concat (map (level_rows u) ds)) = concat (map (map fst) ds)"
  by (induction ds) (simp_all add: row_lineages_Nil row_lineages_append row_lineages_level_rows)

lemma row_lineages_gtdb_levels:
  "row_lineages (concat (map gtdb_level_rows ds)) = concat (map (map fst) ds)"
  by (induction ds) (simp_all add: row_lineages_Nil row_lineages_append row_lineages_gtdb_level_rows)

lemma scenario_levels_eval:
  "assign_higher_taxonomic_levels (taxa_levs scenario_state) = scenario_levels"
  by (simp add: scenario_state_def scenario_levels_def assign_higher_chain Let_def assign_one_def
      higher_taxon_def)

lemma gtdb_scenario_load_state:
  "gtdb_lines float_dec [''SGB1'' \<mapsto> ''d__A;p__B;c__C;o__D;f__E;g__F;s__G''] gtdb_init gtdb_scenario_input
     = Inr gtdb_scenario_state"
  by (simp add: gtdb_scenario_load gtdb_scenario_state_def gtdb_scenario_output_def)

lemma gtdb_scenario_levels_eval:
  "gtdb_aggregate (abundances gtdb_scenario_state) = gtdb_scenario_levels"
  by (simp add: gtdb_scenario_state_def gtdb_scenario_levels_def gtdb_aggregate_chain Let_def
      gtdb_add_one_def gtdb_new_tax_def dict_add_def)

section \<open>Evaluation of the two profiles\<close>

lemma float_dec_25: "float_dec ''25.0'' = Some 25"
  by (simp add: float_dec_def strip_def isspace_def is_digit_def)

lemma py_round_50: "py_round 50 5 = 50"
  by (simp add: py_round_def)

lemma quarter_run: "fix_relab_mpa4 float_dec Map.empty quarter_input False = Inr quarter_output"
  by (simp add: fix_relab_mpa4_def fix_relab_not_merged_def quarter_input_def process_line_def
        init_state_def strip_def isspace_def store_leaf_def fix_labels_def fix_jun23_def neg_def
        float_dec_25)
     (simp add: quarter_output_def assign_higher_taxonomic_levels_def
       assign_level_def assign_one_def higher_taxon_def neg_def sum_level_def py_round_50)

section \<open>The rows as a set\<close>

lemma set_level_rows:
  "set (concat (map (level_rows u) ds)) =
      {Row tax (cname c) (py_round (100 * cval c / (sum_level d + u)) 5) (cextra c)
       | d tax c. d \<in> set ds \<and> (tax, c) \<in> set d}" (is "?A = ?B")
proof
  show "?A \<subseteq> ?B"
  proof
    fix r
    assume "r \<in> ?A"
    then obtain d e where d: "d \<in> set ds" and e: "e \<in> set d"
      and r: "r = Row (fst e) (cname (snd e))
                (py_round (100 * cval (snd e) / (sum_level d + u)) 5) (cextra (snd e))"
      by (auto simp: level_rows_def)
    from e have "(fst e, snd e) \<in> set d" by simp
    with d r show "r \<in> ?B" by blast
  qed
  show "?B \<subseteq> ?A"
  proof clarify
    fix d tax c
    assume d: "d \<in> set ds" and e: "(tax, c) \<in> set d"
    from e have "Row tax (cname c) (py_round (100 * cval c / (sum_level d + u)) 5) (cextra c)
        \<in> set (level_rows u d)"
      by (force simp: level_rows_def)
    with d show "Row tax (cname c) (py_round (100 * cval c / (sum_level d + u)) 5) (cextra c)
        \<in> set (concat (map (level_rows u) ds))"
      by auto
  qed
qed

lemma set_gtdb_level_rows:
  "set (concat (map gtdb_level_rows ds)) =
      {GRow tax (v * 100 / total4level d) | d tax v. d \<in> set ds \<and> (tax, v) \<in> set d}"
  (is "?A = ?B")
proof
  show "?A \<subseteq> ?B"
  proof
    fix r
    assume "r \<in> ?A"
    then obtain d e where d: "d \<in> set ds" and e: "e \<in> set d"
      and r: "r = GRow (fst e) (snd e * 100 / total4level d)"
      by (auto simp: gtdb_level_rows_def)
    from e have "(fst e, snd e) \<in> set d" by simp
    with d r show "r \<in> ?B" by blast
  qed
  show "?B \<subseteq> ?A"
  proof clarify
    fix d tax v
    assume d: "d \<in> set ds" and e: "(tax, v) \<in> set d"
    from e have "GRow tax (v * 100 / total4level d) \<in> set (gtdb_level_rows d)"
      by (force simp: gtdb_level_rows_def)
    with d show "GRow tax (v * 100 / total4level d) \<in> set (concat (map gtdb_level_rows ds))"
      by auto
  qed
qed

lemma scenario_levels_first:
  "[(''d__Bacteria'', Cell ''2'' 95 '''')] \<in> set (assign_higher_taxonomic_levels (taxa_levs scenario_state))"
  by (simp add: scenario_levels_eval) (simp add: scenario_levels_def)

lemma gtdb_scenario_levels_first:
  "[(''d__A'', 95)] \<in> set (gtdb_aggregate (abundances gtdb_scenario_state))"
  by (simp add: gtdb_scenario_levels_eval) (simp add: gtdb_scenario_levels_def)

section \<open>Totals under aggregation\<close>


















section \<open>The shared cells of a merged profile\<close>

lemma py_round_of_int: "py_round (of_int k) n = of_int k"
proof -
  have e: "(of_int k :: real) * 10 ^ n = of_int (k * 10 ^ n)" by simp
  have f: "\<lfloor>(of_int k :: real) * 10 ^ n\<rfloor> = k * 10 ^ n"
    unfolding e by (rule floor_of_int)
  have "py_round (of_int k) n = of_int (k * 10 ^ n) / 10 ^ n"
    unfolding py_round_def Let_def f by (simp only: e) simp
  then show ?thesis by simp
qed

lemma py_round_numeral: "py_round (numeral w) n = numeral w"
  using py_round_of_int[of "numeral w" n] by simp

lemma float_dec_25_newline: "float_dec ''25.0\<newline>'' = Some 25"
  by (simp add: float_dec_def strip_def isspace_def is_digit_def)

lemma merged_quarter_load:
  "process_lines_merged float_dec Map.empty init_mstate merged_quarter_input =
     Inr \<lparr>release = Some ''mpa_vJun23_CHOCOPhlAnSGB_202307'', unclassified_fraction = Some [25],
          taxa_levs = [[], [], [], [], [], [], [],
            [(''k__B|p__P|c__C|o__O|f__F|g__G|s__S|t__SGB1'', 0)]],
          out = take 2 merged_quarter_output, ncols = Some 1, heap = [[25]]\<rparr>"
  by (simp add: merged_quarter_input_def merged_quarter_output_def process_line_merged_def
      init_mstate_def strip_def isspace_def store_leaf_merged_def fix_labels_merged_def
      fix_jun23_def neg_def float_dec_25 float_dec_25_newline)

lemma merged_quarter_assign:
  "assign_higher_taxonomic_levels_merged
     ([[25]], [[], [], [], [], [], [], [], [(''k__B|p__P|c__C|o__O|f__F|g__G|s__S|t__SGB1'', 0)]])
   = Inr ([[25]],
       [[(''k__B'', 0)],
        [(''k__B|p__P'', 0)],
        [(''k__B|p__P|c__C'', 0)],
        [(''k__B|p__P|c__C|o__O'', 0)],
        [(''k__B|p__P|c__C|o__O|f__F'', 0)],
        [(''k__B|p__P|c__C|o__O|f__F|g__G'', 0)],
        [(''k__B|p__P|c__C|o__O|f__F|g__G|s__S'', 0)],
        [(''k__B|p__P|c__C|o__O|f__F|g__G|s__S|t__SGB1'', 0)]])"
  by (simp add: assign_higher_taxonomic_levels_merged_def assign_level_merged_def
      assign_one_merged_def higher_taxon_def neg_def Let_def)

lemma merged_shared_cell_renormalised_at_every_rank:
  "fix_relab_mpa4 float_dec Map.empty merged_quarter_input True = Inr merged_quarter_output"
  by (simp add: fix_relab_mpa4_def fix_relab_merged_def merged_quarter_load merged_quarter_assign)
     (simp add: merged_quarter_output_def np_add_def renormalise_def py_round_numeral)

lemma float_dec_00625: "float_dec ''0.0625'' = Some (625 / 10000)"
  by (simp add: float_dec_def strip_def isspace_def is_digit_def)

lemma float_dec_639375: "float_dec ''63.9375'' = Some (639375 / 10000)"
  by (simp add: float_dec_def strip_def isspace_def is_digit_def)

lemma dyadic_read:
  "read_sgb2gtdb Map.empty dyadic_table =
     Inr [''SGB1'' \<mapsto> ''d__A;p__B;c__C;o__D;f__E;g__F;s__G1'',
          ''SGB2'' \<mapsto> ''d__A;p__B;c__C;o__D;f__E;g__F;s__G2'']"
  by (simp add: dyadic_table_def strip_def isspace_def)

lemma dyadic_load_state:
  "gtdb_lines float_dec [''SGB1'' \<mapsto> ''d__A;p__B;c__C;o__D;f__E;g__F;s__G1'',
          ''SGB2'' \<mapsto> ''d__A;p__B;c__C;o__D;f__E;g__F;s__G2''] gtdb_init dyadic_input
     = Inr dyadic_state"
  by (simp add: dyadic_input_def dyadic_state_def gtdb_line_def gtdb_init_def strip_def
      isspace_def dict_add_def float_dec_00625 float_dec_639375)

lemma dyadic_levels_eval:
  "gtdb_aggregate (abundances dyadic_state) =
     [[(''d__A'', 64)],
      [(''d__A;p__B'', 64)],
      [(''d__A;p__B;c__C'', 64)],
      [(''d__A;p__B;c__C;o__D'', 64)],
      [(''d__A;p__B;c__C;o__D;f__E'', 64)],
      [(''d__A;p__B;c__C;o__D;f__E;g__F'', 64)],
      [(''d__A;p__B;c__C;o__D;f__E;g__F;s__G1'', 625 / 10000),
       (''d__A;p__B;c__C;o__D;f__E;g__F;s__G2'', 639375 / 10000)]]"
  by (simp add: dyadic_state_def gtdb_aggregate_def gtdb_level_def gtdb_add_one_def
       gtdb_new_tax_def dict_add_def)

lemma dyadic_run: "get_gtdb_profile float_dec dyadic_table dyadic_input = Inr dyadic_output"
  by (simp add: get_gtdb_profile_def dyadic_read dyadic_load_state dyadic_levels_eval)
     (simp add: dyadic_state_def dyadic_output_def total4level_def)

lemma dyadic_levels_last:
  "[(''d__A;p__B;c__C;o__D;f__E;g__F;s__G1'', 625 / 10000),
    (''d__A;p__B;c__C;o__D;f__E;g__F;s__G2'', 639375 / 10000)]
     \<in> set (gtdb_aggregate (abundances dyadic_state))"
  by (simp add: dyadic_levels_eval)

lemma py_round_dyadic: "py_round (9765625 / 100000000) 5 = 9766 / 100000"
  by (simp add: py_round_def Let_def)

section \<open>The order of the rows of a merged profile\<close>

lemma store_leaf_merged_shape:
  "store_leaf_merged flt st parts = Inr st' \<Longrightarrow> taxa_levs st = [[], [], [], [], [], [], [], L] \<Longrightarrow>
   \<exists>L'. taxa_levs st' = [[], [], [], [], [], [], [], L']"
  by (auto simp: store_leaf_merged_def neg_def split: list.splits option.splits)

lemma process_line_merged_shape:
  "process_line_merged flt oct st line = Inr st' \<Longrightarrow> taxa_levs st = [[], [], [], [], [], [], [], L] \<Longrightarrow>
   \<exists>L'. taxa_levs st' = [[], [], [], [], [], [], [], L']"
  by (auto simp: process_line_merged_def Let_def dest: store_leaf_merged_shape
      split: if_splits option.splits sum.splits)

lemma process_lines_merged_shape:
  "process_lines_merged flt oct st lines = Inr st' \<Longrightarrow> taxa_levs st = [[], [], [], [], [], [], [], L] \<Longrightarrow>
   \<exists>L'. taxa_levs st' = [[], [], [], [], [], [], [], L']"
proof (induction lines arbitrary: st L)
  case Nil then show ?case by simp
next
  case (Cons l ls)
  then obtain st1 where 1: "process_line_merged flt oct st l = Inr st1"
    and 2: "process_lines_merged flt oct st1 ls = Inr st'"
    by (auto split: sum.splits)
  from process_line_merged_shape[OF 1 Cons.prems(2)] obtain L1 where
    "taxa_levs st1 = [[], [], [], [], [], [], [], L1]" by blast
  from Cons.IH[OF 2 this] show ?case .
qed

lemma keys_assign_one_merged:
  "assign_one_merged hp entry = Inr hp' \<Longrightarrow>
   fst ` set (snd hp') = insert (higher_taxon (fst entry)) (fst ` set (snd hp))"
proof (cases "map_of (snd hp) (higher_taxon (fst entry))")
  case None
  assume "assign_one_merged hp entry = Inr hp'"
  with None have "hp' = (fst hp, dict_set (snd hp) (higher_taxon (fst entry)) (snd entry))"
    by (simp add: assign_one_merged_def Let_def)
  then show ?thesis by (simp add: keys_dict_set)
next
  case (Some a)
  assume "assign_one_merged hp entry = Inr hp'"
  with Some obtain r where
    "hp' = (fst hp @ [r], dict_set (snd hp) (higher_taxon (fst entry)) (length (fst hp)))"
    by (auto simp: assign_one_merged_def Let_def split: sum.splits)
  then show ?thesis by (simp add: keys_dict_set)
qed

lemma keys_assign_entries_merged:
  "assign_entries_merged hp lower = Inr hp' \<Longrightarrow>
   fst ` set (snd hp') = fst ` set (snd hp) \<union> higher_taxon ` fst ` set lower"
proof (induction lower arbitrary: hp)
  case Nil then show ?case by simp
next
  case (Cons entry lower)
  then obtain hp1 where 1: "assign_one_merged hp entry = Inr hp1"
    and 2: "assign_entries_merged hp1 lower = Inr hp'"
    by (auto split: sum.splits)
  from keys_assign_one_merged[OF 1] Cons.IH[OF 2] show ?case by auto
qed

lemma assign_level_merged_keys:
  assumes "assign_level_merged (h, tlv) i = Inr (h', tlv')"
    and "length tlv = 8" and "1 \<le> i" and "i \<le> 7" and "tlv ! (7 - i) = []"
  shows "\<exists>d. tlv' = tlv[7 - i := d] \<and> fst ` set d = higher_taxon ` fst ` set (tlv ! (8 - i))"
proof -
  have n: "neg (Suc i) tlv = 7 - i" "neg i tlv = 8 - i"
    using assms(2) by (simp_all add: neg_def)
  from assms(1) obtain hp where e: "assign_entries_merged (h, []) (tlv ! (8 - i)) = Inr hp"
    and t: "tlv' = tlv[7 - i := snd hp]"
    by (auto simp: assign_level_merged_def Let_def n assms(5) split: sum.splits)
  from keys_assign_entries_merged[OF e] t show ?thesis by auto
qed

lemma levels_linked_step:
  assumes "levels_linked (i - 1) tlv" and "assign_level_merged (h, tlv) i = Inr (h', tlv')"
    and "1 \<le> i" and "i \<le> 7"
  shows "levels_linked i tlv'"
proof -
  from assms(1) have len: "length tlv = 8"
    and emp: "\<And>j. j < 8 - i \<Longrightarrow> tlv ! j = []"
    and lnk: "\<And>j. 8 - i \<le> j \<Longrightarrow> j < 7 \<Longrightarrow>
        fst ` set (tlv ! j) = higher_taxon ` fst ` set (tlv ! Suc j)"
    using assms(3,4) by (auto simp: levels_linked_def)
  have "7 - i < 8 - i" using assms(3,4) by arith
  from emp[OF this] have e: "tlv ! (7 - i) = []" .
  from assign_level_merged_keys[OF assms(2) len assms(3,4) e] obtain d where
    t: "tlv' = tlv[7 - i := d]" and k: "fst ` set d = higher_taxon ` fst ` set (tlv ! (8 - i))"
    by blast
  have s: "Suc (7 - i) = 8 - i" using assms(3,4) by simp
  show ?thesis
    unfolding levels_linked_def
  proof (intro conjI allI impI)
    show "length tlv' = 8" using t len by simp
  next
    fix j assume "j < 7 - i"
    then show "tlv' ! j = []" using t len emp[of j] by simp
  next
    fix j assume j: "7 - i \<le> j \<and> j < 7"
    show "fst ` set (tlv' ! j) = higher_taxon ` fst ` set (tlv' ! Suc j)"
    proof (cases "j = 7 - i")
      case True
      then show ?thesis using t len k s assms(3,4) by simp
    next
      case False
      with j assms(3,4) have "8 - i \<le> j" "j < 7" by arith+
      from lnk[OF this] False j show ?thesis using t len by simp
    qed
  qed
qed

lemma assign_merged_linked:
  assumes "assign_higher_taxonomic_levels_merged (h, [[], [], [], [], [], [], [], L]) = Inr ht"
  shows "levels_linked 7 (snd ht)"
proof -
  have 0: "levels_linked 0 [[], [], [], [], [], [], [], L]"
    by (simp add: levels_linked_def less_Suc_eq numeral_eq_Suc) (auto simp: nth_Cons')
  from assms obtain h1 t1 h2 t2 h3 t3 h4 t4 h5 t5 h6 t6 where
      a1: "assign_level_merged (h, [[], [], [], [], [], [], [], L]) 1 = Inr (h1, t1)"
    and a2: "assign_level_merged (h1, t1) 2 = Inr (h2, t2)"
    and a3: "assign_level_merged (h2, t2) 3 = Inr (h3, t3)"
    and a4: "assign_level_merged (h3, t3) 4 = Inr (h4, t4)"
    and a5: "assign_level_merged (h4, t4) 5 = Inr (h5, t5)"
    and a6: "assign_level_merged (h5, t5) 6 = Inr (h6, t6)"
    and a7: "assign_level_merged (h6, t6) 7 = Inr ht"
    unfolding assign_higher_taxonomic_levels_merged_def
    by (auto split: sum.splits)
  from levels_linked_step[OF _ a1] 0 have "levels_linked 1 t1" by simp
  from levels_linked_step[OF _ a2] this have "levels_linked 2 t2" by simp
  from levels_linked_step[OF _ a3] this have "levels_linked 3 t3" by simp
  from levels_linked_step[OF _ a4] this have "levels_linked 4 t4" by simp
  from levels_linked_step[OF _ a5] this have "levels_linked 5 t5" by simp
  from levels_linked_step[OF _ a6] this have 6: "levels_linked 6 t6" by simp
  obtain h7 t7 where ht: "ht = (h7, t7)" by (cases ht)
  from levels_linked_step[OF _ a7[unfolded ht]] 6 show ?thesis by (simp add: ht)
qed

lemma sum_levels_merged_length:
  "sum_levels_merged hp n ds = Inr ss \<Longrightarrow> length ss = length ds"
  by (induction ds arbitrary: ss) (auto split: sum.splits)

lemma row_lineages_write_level_merged:
  "write_level_merged s u hp d = Inr (hp', rows) \<Longrightarrow> row_lineages rows = map fst d"
proof (induction d arbitrary: hp hp' rows)
  case Nil
  then show ?case by (simp add: row_lineages_Nil)
next
  case (Cons entry d)
  obtain tax a where entry: "entry = (tax, a)" by (cases entry)
  from Cons.prems obtain c hp1 rs where
    w: "write_level_merged s u (hp[a := c]) d = Inr (hp1, rs)" and r: "rows = MRow tax c # rs"
    by (auto simp: entry split: sum.splits)
  from Cons.IH[OF w] r show ?case
    by (simp add: entry row_lineages_def)
qed

lemma row_lineages_write_levels_merged:
  "write_levels_merged u hp ss ds = Inr rows \<Longrightarrow> length ss = length ds \<Longrightarrow>
   row_lineages rows = concat (map (map fst) ds)"
proof (induction u hp ss ds arbitrary: rows rule: write_levels_merged.induct)
  case (1 u hp ds)
  then show ?case by (simp add: row_lineages_Nil)
next
  case (2 u hp s ss)
  then show ?case by simp
next
  case (3 u hp s ss d ds)
  from "3.prems"(1) obtain hp1 r1 rs where
    w: "write_level_merged s u hp d = Inr (hp1, r1)"
    and ws: "write_levels_merged u hp1 ss ds = Inr rs" and r: "rows = r1 @ rs"
    by (auto split: sum.splits)
  from "3.prems"(2) have len: "length ss = length ds" by simp
  have "row_lineages rs = concat (map (map fst) ds)"
    using "3.IH" w ws len by simp
  with row_lineages_write_level_merged[OF w] r show ?case
    by (simp add: row_lineages_append)
qed

lemma fix_relab_merged_lineages:
  assumes "process_lines_merged flt oct init_mstate lines = Inr mst"
    and "assign_higher_taxonomic_levels_merged (heap mst, taxa_levs mst) = Inr ht"
    and "fix_relab_mpa4 flt oct lines True = Inr outp"
  shows "row_lineages outp = concat (map (map fst) (snd ht))"
proof -
  from assms obtain n u totals rows where
    s: "sum_levels_merged (fst ht) n (snd ht) = Inr totals"
    and w: "write_levels_merged u (map (map Fin) (fst ht)) totals (snd ht) = Inr rows"
    and o: "outp = out mst @ rows"
    by (auto simp: fix_relab_mpa4_def fix_relab_merged_def Let_def split: sum.splits option.splits)
  from process_lines_merged_out[OF assms(1)] have "out mst = concat (map written_while_reading lines)"
    by (simp add: init_mstate_def)
  with o row_lineages_write_levels_merged[OF w sum_levels_merged_length[OF s]]
  show ?thesis
    by (simp add: row_lineages_append row_lineages_written)
qed

lemma concat_eight:
  assumes "length xs = 8"
  shows "concat (map f xs) = concat (map (\<lambda>level. f (xs ! level)) [0, 1, 2, 3, 4, 5, 6, 7])"
proof -
  from assms obtain a b c d e g h k where "xs = [a, b, c, d, e, g, h, k]"
    by (auto simp: eval_nat_numeral length_Suc_conv)
  then show ?thesis by simp
qed

lemma merged_quarter_rows:
  "row_lineages merged_quarter_output =
     [''k__B'', ''k__B|p__P'', ''k__B|p__P|c__C'', ''k__B|p__P|c__C|o__O'',
      ''k__B|p__P|c__C|o__O|f__F'', ''k__B|p__P|c__C|o__O|f__F|g__G'',
      ''k__B|p__P|c__C|o__O|f__F|g__G|s__S'', ''k__B|p__P|c__C|o__O|f__F|g__G|s__S|t__SGB1'']"
  by (simp add: merged_quarter_output_def row_lineages_def)

section \<open>The last line of a lineage\<close>

lemma distinct_dict_set:
  "distinct (map fst d) \<Longrightarrow> distinct (map fst (dict_set d k v))"
  by (induction d k v rule: dict_set.induct) (auto simp: keys_dict_set)

lemma filter_dict_set_other:
  "k' \<noteq> k \<Longrightarrow> filter (\<lambda>entry. fst entry = k) (dict_set d k' v) = filter (\<lambda>entry. fst entry = k) d"
  by (induction d k' v rule: dict_set.induct) auto

lemma filter_absent:
  "k \<notin> fst ` set d \<Longrightarrow> filter (\<lambda>entry. fst entry = k) d = []"
  by (induction d) auto

lemma filter_dict_set_same:
  "distinct (map fst d) \<Longrightarrow> filter (\<lambda>entry. fst entry = k) (dict_set d k v) = [(k, v)]"
  by (induction d k v rule: dict_set.induct) (auto simp: filter_absent)

lemma filter_key_map_of:
  "distinct (map fst d) \<Longrightarrow> map_of d k = Some v \<Longrightarrow> filter (\<lambda>entry. fst entry = k) d = [(k, v)]"
  by (induction d) (auto simp: filter_absent dest: map_of_SomeD)

lemma store_leaf_leaf:
  assumes "store_leaf flt st parts = Inr st'" and "length (taxa_levs st) = 8"
  shows "\<exists>v. flt (parts ! 2) = Some v \<and> length (taxa_levs st') = 8 \<and> release st' = release st
     \<and> taxa_levs st' ! 7 = dict_set (taxa_levs st ! 7) (parts ! 0)
          (Cell (parts ! 1) v (if length parts = 4 then parts ! 3 else ''''))"
  using assms by (auto simp: store_leaf_def neg_def split: if_splits option.splits)

lemma store_leaf_parts:
  "store_leaf flt st parts = Inr st' \<Longrightarrow> take 1 parts = [parts ! 0]"
  by (cases parts) (auto simp: store_leaf_def split: if_splits)

lemma process_line_leaf:
  assumes "process_line flt oct st line = Inr st'" and "length (taxa_levs st) = 8"
  shows "length (taxa_levs st') = 8
     \<and> (distinct (map fst (taxa_levs st ! 7)) \<longrightarrow> distinct (map fst (taxa_levs st' ! 7)))
     \<and> (k \<notin> set (stored_lineages (fix_labels oct) (release st) [line]) \<longrightarrow>
          filter (\<lambda>entry. fst entry = k) (taxa_levs st' ! 7)
            = filter (\<lambda>entry. fst entry = k) (taxa_levs st ! 7))"
proof (cases "is_data_line line")
  case True
  with assms(1) obtain parts where f: "fix_labels oct (release st) line = Inr parts"
    and s: "store_leaf flt st parts = Inr st'"
    by (auto simp: process_line_data split: sum.splits)
  from store_leaf_leaf[OF s assms(2)] obtain v where
    l: "length (taxa_levs st') = 8"
    and t: "taxa_levs st' ! 7 = dict_set (taxa_levs st ! 7) (parts ! 0)
          (Cell (parts ! 1) v (if length parts = 4 then parts ! 3 else ''''))"
    by blast
  from True have h: "\<not> startswith line ''#mpa_v''" by (simp add: is_data_line_def)
  have "stored_lineages (fix_labels oct) (release st) [line] = [parts ! 0]"
    using True h f store_leaf_parts[OF s] by simp
  then show ?thesis
    using l t by (auto simp: distinct_dict_set filter_dict_set_other)
next
  case False
  with assms(1) have "taxa_levs st' = taxa_levs st"
    by (auto simp: process_line_def is_data_line_def Let_def split: if_splits option.splits)
  with assms(2) show ?thesis by simp
qed

lemma stored_lineages_Cons:
  "stored_lineages fix rel (line # rest) =
     (if is_data_line line \<and> (\<exists>e. fix rel line = Inl e) then []
      else stored_lineages fix rel [line]
           @ stored_lineages fix (header_release rel [line]) rest)"
  by (auto simp: is_data_line_def split: sum.splits)

lemma process_lines_leaf:
  assumes "process_lines flt oct st lines = Inr st'" and "length (taxa_levs st) = 8"
  shows "length (taxa_levs st') = 8
     \<and> (distinct (map fst (taxa_levs st ! 7)) \<longrightarrow> distinct (map fst (taxa_levs st' ! 7)))
     \<and> (k \<notin> set (stored_lineages (fix_labels oct) (release st) lines) \<longrightarrow>
          filter (\<lambda>entry. fst entry = k) (taxa_levs st' ! 7)
            = filter (\<lambda>entry. fst entry = k) (taxa_levs st ! 7))"
  using assms
proof (induction lines arbitrary: st)
  case Nil
  then show ?case by simp
next
  case (Cons l ls)
  then obtain st1 where 1: "process_line flt oct st l = Inr st1"
    and 2: "process_lines flt oct st1 ls = Inr st'"
    by (auto split: sum.splits)
  note a = process_line_leaf[OF 1 Cons.prems(2), of k]
  from a have l1: "length (taxa_levs st1) = 8" by simp
  note b = Cons.IH[OF 2 l1]
  have r: "release st1 = header_release (release st) [l]"
    using process_line_release[OF 1] by simp
  have ne: "\<not> (is_data_line l \<and> (\<exists>e. fix_labels oct (release st) l = Inl e))"
    using 1 by (auto simp: process_line_data)
  have s: "stored_lineages (fix_labels oct) (release st) (l # ls) =
      stored_lineages (fix_labels oct) (release st) [l]
      @ stored_lineages (fix_labels oct) (release st1) ls"
    using ne stored_lineages_Cons[of "fix_labels oct" "release st" l ls] unfolding r
    by (simp only: if_False)
  show ?case
    using a b unfolding s by auto
qed

section \<open>The ancestors as sums over the leaves\<close>

lemma lineage_sum_Nil: "lineage_sum f P [] = 0"
  by (simp add: lineage_sum_def)

lemma lineage_sum_dict_set:
  "lineage_sum f P (dict_set d k v) =
     lineage_sum f P d
     + (if P k then f (k, v) - (case map_of d k of None \<Rightarrow> 0 | Some w \<Rightarrow> f (k, w)) else 0)"
  by (induction d k v rule: dict_set.induct) (auto simp: lineage_sum_def)

lemma lineage_sum_assign_one:
  "lineage_sum (\<lambda>entry. cval (snd entry)) P (assign_one higher entry) =
     lineage_sum (\<lambda>entry. cval (snd entry)) P higher
     + (if P (higher_taxon (fst entry)) then cval (snd entry) else 0)"
  by (cases "map_of higher (higher_taxon (fst entry))")
     (simp_all add: assign_one_def Let_def lineage_sum_dict_set)

lemma lineage_sum_assign:
  "lineage_sum (\<lambda>entry. cval (snd entry)) P (foldl assign_one higher lower) =
     lineage_sum (\<lambda>entry. cval (snd entry)) P higher
     + lineage_sum (\<lambda>entry. cval (snd entry)) (\<lambda>x. P (higher_taxon x)) lower"
proof (induction lower arbitrary: higher)
  case Nil
  then show ?case by (simp add: lineage_sum_Nil)
next
  case (Cons entry lower)
  have "lineage_sum (\<lambda>entry. cval (snd entry)) (\<lambda>x. P (higher_taxon x)) (entry # lower) =
      (if P (higher_taxon (fst entry)) then cval (snd entry) else 0)
      + lineage_sum (\<lambda>entry. cval (snd entry)) (\<lambda>x. P (higher_taxon x)) lower"
    by (simp add: lineage_sum_def)
  then show ?case
    by (simp add: Cons.IH lineage_sum_assign_one)
qed

lemma lineage_sum_aggregate:
  "lineage_sum (\<lambda>entry. cval (snd entry)) P (foldl assign_one [] lower) =
     lineage_sum (\<lambda>entry. cval (snd entry)) (\<lambda>x. P (higher_taxon x)) lower"
  by (simp add: lineage_sum_assign lineage_sum_Nil)

lemma value_at_aggregate:
  "value_at (foldl assign_one [] lower) g =
     lineage_sum (\<lambda>entry. cval (snd entry)) (\<lambda>x. higher_taxon x = g) lower"
proof -
  have "value_at [] g = 0" by (simp add: value_at_def)
  then show ?thesis by (simp add: value_at_assign lineage_sum_def)
qed

lemma ancestor_at_7: "ancestor_at 7 x = x"
  by (simp add: ancestor_at_def)

lemma ancestor_at_step: "level < 7 \<Longrightarrow> ancestor_at level x = higher_taxon (ancestor_at (Suc level) x)"
proof -
  assume "level < 7"
  then have "7 - level = Suc (7 - Suc level)" by simp
  then show ?thesis by (simp add: ancestor_at_def)
qed

lemma lineage_sum_cong:
  "(\<And>x. P x = Q x) \<Longrightarrow> lineage_sum f P d = lineage_sum f Q d"
  by (simp add: lineage_sum_def)

lemma assign_higher_leaf_sums:
  assumes "level < 7"
  shows "value_at (assign_higher_taxonomic_levels [[], [], [], [], [], [], [], L] ! level) g
       = lineage_sum (\<lambda>entry. cval (snd entry)) (\<lambda>x. ancestor_at level x = g) L"
proof -
  have a: "ancestor_at 6 x = higher_taxon x" 
    "ancestor_at 5 x = higher_taxon (higher_taxon x)"
    "ancestor_at 4 x = higher_taxon (higher_taxon (higher_taxon x))"
    "ancestor_at 3 x = higher_taxon (higher_taxon (higher_taxon (higher_taxon x)))"
    "ancestor_at 2 x = higher_taxon (higher_taxon (higher_taxon (higher_taxon (higher_taxon x))))"
    "ancestor_at 1 x = higher_taxon (higher_taxon (higher_taxon (higher_taxon (higher_taxon (higher_taxon x)))))"
    "ancestor_at (Suc 0) x = higher_taxon (higher_taxon (higher_taxon (higher_taxon (higher_taxon (higher_taxon x)))))"
    "ancestor_at 0 x = higher_taxon (higher_taxon (higher_taxon (higher_taxon (higher_taxon (higher_taxon (higher_taxon x))))))"
    for x
    by (simp_all add: ancestor_at_def eval_nat_numeral)
  from assms consider "level = 0" | "level = 1" | "level = 2" | "level = 3" | "level = 4"
    | "level = 5" | "level = 6" by linarith
  then show ?thesis
    by cases (simp_all add: assign_higher_chain Let_def value_at_aggregate lineage_sum_aggregate a)
qed

lemma assign_higher_leaf_keys:
  assumes "level < 7"
  shows "fst ` set (assign_higher_taxonomic_levels [[], [], [], [], [], [], [], L] ! level)
       = ancestor_at level ` fst ` set L"
proof -
  have a: "ancestor_at 6 = higher_taxon"
    "ancestor_at 5 = (\<lambda>x. higher_taxon (higher_taxon x))"
    "ancestor_at 4 = (\<lambda>x. higher_taxon (higher_taxon (higher_taxon x)))"
    "ancestor_at 3 = (\<lambda>x. higher_taxon (higher_taxon (higher_taxon (higher_taxon x))))"
    "ancestor_at 2 = (\<lambda>x. higher_taxon (higher_taxon (higher_taxon (higher_taxon (higher_taxon x)))))"
    "ancestor_at 1 = (\<lambda>x. higher_taxon (higher_taxon (higher_taxon (higher_taxon (higher_taxon (higher_taxon x))))))"
    "ancestor_at (Suc 0) = (\<lambda>x. higher_taxon (higher_taxon (higher_taxon (higher_taxon (higher_taxon (higher_taxon x))))))"
    "ancestor_at 0 = (\<lambda>x. higher_taxon (higher_taxon (higher_taxon (higher_taxon (higher_taxon (higher_taxon (higher_taxon x)))))))"
    by (simp_all add: ancestor_at_def eval_nat_numeral fun_eq_iff)
  from assms consider "level = 0" | "level = 1" | "level = 2" | "level = 3" | "level = 4"
    | "level = 5" | "level = 6" by linarith
  then show ?thesis
    by cases (simp_all add: assign_higher_chain Let_def keys_assign a image_image)
qed

lemma lineage_sum_split:
  assumes "filter (\<lambda>entry. fst entry = k) d = [(k, c)]" and "P k"
  shows "lineage_sum f P d = f (k, c) + lineage_sum f (\<lambda>x. x \<noteq> k \<and> P x) d"
proof -
  have "lineage_sum f P d =
      lineage_sum f P (filter (\<lambda>entry. fst entry = k) d) + lineage_sum f (\<lambda>x. x \<noteq> k \<and> P x) d"
    by (induction d) (auto simp: lineage_sum_def)
  then show ?thesis
    using assms by (simp add: lineage_sum_def)
qed

section \<open>The claims\<close>

text \<open>
  C2, as the code behaves. For the non-merged input with header
  \<^verbatim>\<open>#mpa_vJun23_CHOCOPhlAnSGB_202307\<close>, an UNCLASSIFIED row of 5.0 and one data row of 95.0
  under \<^verbatim>\<open>p__Bacillota\<close>, the output is the list \<open>scenario_output\<close>: the header ends in
  \<^verbatim>\<open>_202403\<close>, the unclassified line is the input line, every lineage has
  \<^verbatim>\<open>p__Firmicutes\<close>, and every rank, the domain rank included, has the value
  \<open>round(100 * 95 / (95 + 5), 5) = 95.0\<close>.
\<close>

theorem scenario_output_is_95_at_every_rank:
  "fix_relab_mpa4 float_dec Map.empty scenario_input False = Inr scenario_output
   \<and> map (render str_dec) (take 2 scenario_output) =
       [''#mpa_vJun23_CHOCOPhlAnSGB_202403\<newline>'', scenario_input ! 1]
   \<and> row_value ''d__Bacteria'' scenario_output = Some 95"
  by (simp add: scenario_run) (simp add: scenario_output_def scenario_input_def)

text \<open>
  C2 as stated fails: the domain-rank row \<^verbatim>\<open>d__Bacteria\<close> of the scenario has the value
  95.0, not 100.0.
\<close>

theorem scenario_domain_row_not_100:
  "map_sum id (row_value ''d__Bacteria'')
     (fix_relab_mpa4 float_dec Map.empty scenario_input False) = Inr (Some 95)
   \<and> map_sum id (row_value ''d__Bacteria'')
     (fix_relab_mpa4 float_dec Map.empty scenario_input False) \<noteq> Inr (Some 100)"
  by (simp add: scenario_run) (simp add: scenario_output_def)

text \<open>
  C4 at the lineage \<^verbatim>\<open>a;b;b\<close> of the cross-nomenclature pipeline: line 79 removes every
  occurrence of \<^verbatim>\<open>;b\<close> and computes the parent key \<^verbatim>\<open>a\<close>, where the lineage without its
  last segment is \<^verbatim>\<open>a;b\<close>. The profile-repair pipeline computes \<^verbatim>\<open>a|b\<close> for \<^verbatim>\<open>a|b|b\<close>.
\<close>

theorem gtdb_parent_key_drops_inner_segment:
  "gtdb_new_tax ''a;b;b'' = ''a''
   \<and> spec_parent_lineage (CHR '';'') ''a;b;b'' = ''a;b''
   \<and> higher_taxon ''a|b|b'' = ''a|b''"
  by (simp add: gtdb_new_tax_def spec_parent_lineage_def higher_taxon_def)

text \<open>
  C9. Let the input be \<open>pre @ line # post\<close>, where \<open>line\<close> is a species-level data line and
  the release that the header lines of \<open>pre\<close> leave in effect is absent or is neither of
  the two recognized releases. Then no run of the profile-repair pipeline, merged or not,
  returns an output; and when the lines of \<open>pre\<close> are read without an error, the run
  aborts at \<open>line\<close> with the fatal error for an unrecognized release.
\<close>

theorem unrecognized_release_aborts:
  assumes "is_data_line line"
    and "header_release None pre \<noteq> Some ''mpa_vJun23_CHOCOPhlAnSGB_202307''"
    and "header_release None pre \<noteq> Some ''mpa_vOct22_CHOCOPhlAnSGB_202212''"
  shows "(\<exists>e. fix_relab_mpa4 flt oct (pre @ line # post) merged = Inl e)
    \<and> (process_lines flt oct init_state pre = Inr st \<longrightarrow>
         fix_relab_mpa4 flt oct (pre @ line # post) False = Inl UnrecognizedRelease)
    \<and> (process_lines_merged flt oct init_mstate pre = Inr mst \<longrightarrow>
         fix_relab_mpa4 flt oct (pre @ line # post) True = Inl UnrecognizedRelease)"
proof -
  have r: "release init_state = None" "release init_mstate = None"
    by (simp_all add: init_state_def init_mstate_def)
  have a: "process_lines flt oct init_state (pre @ line # post) =
     (case process_lines flt oct init_state pre of Inl e \<Rightarrow> Inl e | Inr st' \<Rightarrow> Inl UnrecognizedRelease)"
    using assms by (intro process_lines_unrecognized) (simp_all add: r)
  have b: "process_lines_merged flt oct init_mstate (pre @ line # post) =
     (case process_lines_merged flt oct init_mstate pre of Inl e \<Rightarrow> Inl e | Inr st' \<Rightarrow> Inl UnrecognizedRelease)"
    using assms by (intro process_lines_merged_unrecognized) (simp_all add: r)
  show ?thesis
    by (cases merged) (auto simp: fix_relab_mpa4_def fix_relab_not_merged_def fix_relab_merged_def a b split: sum.splits)
qed

theorem unrecognized_release_aborts_witness:
  "is_data_line (unknown_release_input ! 1)
   \<and> header_release None (take 1 unknown_release_input) = Some ''mpa_vJan21_CHOCOPhlAnSGB_202103''
   \<and> fix_relab_mpa4 float_dec Map.empty unknown_release_input False = Inl UnrecognizedRelease
   \<and> fix_relab_mpa4 float_dec Map.empty unknown_release_input True = Inl UnrecognizedRelease"
proof -
  let ?pre = "[''#mpa_vJan21_CHOCOPhlAnSGB_202103\<newline>'']"
  let ?line = "''k__B|t__SGB1'' @ TAB @ ''2|'' @ TAB @ ''95.0'' @ TAB @ ''\<newline>''"
  have d: "is_data_line ?line" by (simp add: is_data_line_def)
  have h: "header_release None ?pre = Some ''mpa_vJan21_CHOCOPhlAnSGB_202103''"
    by (simp add: strip_def isspace_def)
  have p: "process_lines float_dec Map.empty init_state ?pre =
      Inr (init_state\<lparr>release := Some ''mpa_vJan21_CHOCOPhlAnSGB_202103'',
             out := [Text ''#mpa_vJan21_CHOCOPhlAnSGB_202403\<newline>'']\<rparr>)"
    by (simp add: process_line_def init_state_def strip_def isspace_def)
  have pm: "process_lines_merged float_dec Map.empty init_mstate ?pre =
      Inr (init_mstate\<lparr>release := Some ''mpa_vJan21_CHOCOPhlAnSGB_202103'',
             out := [Text ''#mpa_vJan21_CHOCOPhlAnSGB_202403\<newline>'']\<rparr>)"
    by (simp add: process_line_merged_def init_mstate_def strip_def isspace_def)
  have n1: "header_release None ?pre \<noteq> Some ''mpa_vJun23_CHOCOPhlAnSGB_202307''"
    and n2: "header_release None ?pre \<noteq> Some ''mpa_vOct22_CHOCOPhlAnSGB_202212''"
    unfolding h by simp_all
  from unrecognized_release_aborts[OF d n1 n2, of float_dec Map.empty "[]" _ _ _ ] p pm d h
  show ?thesis by (simp add: unknown_release_input_def)
qed

text \<open>
  C8, as the code behaves. A run of the profile-repair pipeline, merged or not, that
  returns an output has written every input line that starts with \<^verbatim>\<open>UNCLASSIFIED\<close> as it
  was read. A run of the cross-nomenclature pipeline has written for such a line the text
  \<^verbatim>\<open>UNCLASSIFIED\<close>, a tab, the formatted float of the third field and a newline.
\<close>

theorem unclassified_line_written:
  "(fix_relab_mpa4 flt oct lines merged = Inr outp \<and> line \<in> set lines
      \<and> startswith line ''UNCLASSIFIED''
    \<longrightarrow> Text line \<in> set outp \<and> render str (Text line) = line)
   \<and> (get_gtdb_profile flt tbl lines = Inr outp \<and> line \<in> set lines
      \<and> startswith line ''UNCLASSIFIED''
    \<longrightarrow> (\<exists>u. flt (split_on (CHR 0x09) (strip line) ! 2) = Some u \<and> GUncl u \<in> set outp
            \<and> render str (GUncl u) = ''UNCLASSIFIED'' @ TAB @ str u @ ''\<newline>''))"
proof (intro conjI impI)
  assume a: "fix_relab_mpa4 flt oct lines merged = Inr outp \<and> line \<in> set lines
      \<and> startswith line ''UNCLASSIFIED''"
  then obtain rows where "outp = concat (map written_while_reading lines) @ rows"
    using fix_relab_mpa4_prefix by blast
  moreover from a have "written_while_reading line = [Text line]" by (simp add: written_unclassified)
  ultimately show "Text line \<in> set outp" using a by force
  show "render str (Text line) = line" by simp
next
  assume a: "get_gtdb_profile flt tbl lines = Inr outp \<and> line \<in> set lines
      \<and> startswith line ''UNCLASSIFIED''"
  then obtain m st rows where 1: "gtdb_lines flt m gtdb_init lines = Inr st"
    and 2: "outp = concat (map (gtdb_written_while_reading flt) lines) @ rows"
    using get_gtdb_profile_prefix by blast
  from gtdb_lines_unclassified[OF 1] a obtain u where
    u: "flt (split_on (CHR 0x09) (strip line) ! 2) = Some u" "gtdb_written_while_reading flt line = [GUncl u]"
    by blast
  with 2 a have "GUncl u \<in> set outp" by force
  with u show "\<exists>u. flt (split_on (CHR 0x09) (strip line) ! 2) = Some u \<and> GUncl u \<in> set outp
            \<and> render str (GUncl u) = ''UNCLASSIFIED'' @ TAB @ str u @ ''\<newline>''" by auto
qed

text \<open>
  C8 as stated fails for the cross-nomenclature pipeline: the unclassified line of the
  input has four fields, the line written has two.
\<close>

theorem gtdb_unclassified_line_reformatted:
  "map_sum id (\<lambda>outp. render str_dec (outp ! 2))
     (get_gtdb_profile float_dec gtdb_scenario_table gtdb_scenario_input)
     = Inr (''UNCLASSIFIED'' @ TAB @ ''5.0\<newline>'')
   \<and> gtdb_scenario_input ! 1 = ''UNCLASSIFIED'' @ TAB @ ''-1'' @ TAB @ ''5.0'' @ TAB @ ''\<newline>''
   \<and> Text (gtdb_scenario_input ! 1) \<notin> set gtdb_scenario_output"
  by (simp add: gtdb_scenario_run) (simp add: gtdb_scenario_output_def gtdb_scenario_input_def str_dec_5)

text \<open>The theorem for C8 at the two concrete profiles.\<close>

theorem unclassified_line_written_witness:
  "fix_relab_mpa4 float_dec Map.empty scenario_input False = Inr scenario_output
   \<and> scenario_input ! 1 \<in> set scenario_input
   \<and> startswith (scenario_input ! 1) ''UNCLASSIFIED''
   \<and> Text (scenario_input ! 1) \<in> set scenario_output
   \<and> get_gtdb_profile float_dec gtdb_scenario_table gtdb_scenario_input = Inr gtdb_scenario_output
   \<and> GUncl 5 \<in> set gtdb_scenario_output"
proof -
  let ?u = "''UNCLASSIFIED'' @ TAB @ ''-1'' @ TAB @ ''5.0'' @ TAB @ ''\<newline>''"
  have m: "?u \<in> set scenario_input" "?u \<in> set gtdb_scenario_input" "scenario_input ! 1 = ?u"
    by (simp_all add: scenario_input_def gtdb_scenario_input_def)
  have s: "startswith ?u ''UNCLASSIFIED''" by simp
  have f: "float_dec (split_on (CHR 0x09) (strip ?u) ! 2) = Some 5"
    by (simp add: strip_def isspace_def float_dec_5)
  from unclassified_line_written[where flt = float_dec and oct = Map.empty
      and lines = scenario_input and merged = False and outp = scenario_output and line = ?u]
    scenario_run m s
  have 1: "Text ?u \<in> set scenario_output" by blast
  from unclassified_line_written[where flt = float_dec and lines = gtdb_scenario_input
      and outp = gtdb_scenario_output and line = ?u and tbl = gtdb_scenario_table]
    gtdb_scenario_run m s
  obtain u where "float_dec (split_on (CHR 0x09) (strip ?u) ! 2) = Some u" "GUncl u \<in> set gtdb_scenario_output"
    by blast
  with f have 2: "GUncl 5 \<in> set gtdb_scenario_output" by simp
  from 1 2 m s scenario_run gtdb_scenario_run show ?thesis by simp
qed

text \<open>
  C7, as the code behaves. Under the newer release a data line is rewritten before it is
  split: when it contains \<^verbatim>\<open>p__Bacillota\<close>, every occurrence becomes \<^verbatim>\<open>p__Firmicutes\<close> and
  nothing else changes; when it does not, every occurrence of
  \<^verbatim>\<open>f__Saccharomycetales_unclassified\<close> becomes \<^verbatim>\<open>f__Debaryomycetaceae\<close>. The same holds for
  merged profiles.
\<close>

theorem jun23_renames_before_split:
  "(is_data_line line \<and> release st = Some ''mpa_vJun23_CHOCOPhlAnSGB_202307'' \<longrightarrow>
      process_line flt oct st line =
        store_leaf flt st (split_on (CHR 0x09) (strip
          (if contains line ''p__Bacillota''
           then replace line ''p__Bacillota'' ''p__Firmicutes''
           else replace line ''f__Saccharomycetales_unclassified'' ''f__Debaryomycetaceae''))))
   \<and> (is_data_line line \<and> release mst = Some ''mpa_vJun23_CHOCOPhlAnSGB_202307'' \<longrightarrow>
      process_line_merged flt oct mst line =
        store_leaf_merged flt mst (split_on (CHR 0x09) (strip
          (if contains line ''p__Bacillota''
           then replace line ''p__Bacillota'' ''p__Firmicutes''
           else replace line ''f__Saccharomycetales_unclassified'' ''f__Debaryomycetaceae''))))"
  by (simp add: process_line_data process_line_merged_data fix_labels_def fix_labels_merged_def
      fix_jun23_cases)

text \<open>The theorem for C7 at a line that has the family and not the phylum.\<close>

theorem jun23_renames_before_split_witness:
  "is_data_line family_rename_line
   \<and> release jun23_state = Some ''mpa_vJun23_CHOCOPhlAnSGB_202307''
   \<and> process_line float_dec Map.empty jun23_state family_rename_line =
       Inr (jun23_state\<lparr>taxa_levs := [[], [], [], [], [], [], [],
         [(''d__E|p__Ascomycota|f__Debaryomycetaceae|t__SGB9'', Cell ''1|'' 3 '''')]]\<rparr>)"
proof -
  have r: "release jun23_state = Some ''mpa_vJun23_CHOCOPhlAnSGB_202307''"
    by (simp add: jun23_state_def)
  have c: "\<not> contains family_rename_line ''p__Bacillota''"
    by (simp add: family_rename_line_def)
  have e: "store_leaf float_dec jun23_state (split_on (CHR 0x09) (strip
      (replace family_rename_line ''f__Saccharomycetales_unclassified'' ''f__Debaryomycetaceae'')))
     = Inr (jun23_state\<lparr>taxa_levs := [[], [], [], [], [], [], [],
         [(''d__E|p__Ascomycota|f__Debaryomycetaceae|t__SGB9'', Cell ''1|'' 3 '''')]]\<rparr>)"
    by (simp add: family_rename_line_def strip_def isspace_def store_leaf_def float_dec_3 neg_def
        jun23_state_def init_state_def)
  from jun23_renames_before_split[THEN conjunct1, of family_rename_line jun23_state float_dec Map.empty]
    family_rename_data r c e
  show ?thesis by simp
qed

text \<open>
  C7 as stated fails at a data line that contains both substrings: the phylum is renamed,
  the family is not.
\<close>

theorem jun23_line_with_both_keeps_family:
  "contains both_renames_line ''p__Bacillota''
   \<and> contains both_renames_line ''f__Saccharomycetales_unclassified''
   \<and> map_sum id (\<lambda>s. map fst (taxa_levs s ! 7))
        (process_line float_dec Map.empty jun23_state both_renames_line)
      = Inr [''d__E|p__Firmicutes|f__Saccharomycetales_unclassified|t__SGB9'']"
  by (simp add: both_renames_process) (simp add: both_renames_line_def)

text \<open>
  C1, as the code behaves. For a table \<open>d\<close> of the non-merged profile-repair pipeline
  with entries, the total \<open>T\<close> of the table plus the unclassified fraction \<open>u\<close> is not zero,
  the rows of the table are in the output, and their values plus the renormalised
  unclassified share \<open>100 * u / T\<close> sum to 100 within \<open>0.000005\<close> for each row; when
  \<open>T = 100\<close> the share is \<open>u\<close> itself. For a table of the cross-nomenclature pipeline with
  entries, the total is not zero, the rows are in the output, and their values sum to 100
  without the unclassified fraction.
\<close>

theorem renormalised_rows_sum:
  "(process_lines flt oct init_state lines = Inr st
      \<and> fix_relab_mpa4 flt oct lines False = Inr outp
      \<and> d \<in> set (assign_higher_taxonomic_levels (taxa_levs st)) \<and> d \<noteq> [] \<longrightarrow>
    sum_level d + unclassified_fraction st \<noteq> 0
    \<and> set (level_rows (unclassified_fraction st) d) \<subseteq> set outp
    \<and> \<bar>sum_list (row_values (level_rows (unclassified_fraction st) d))
         + 100 * unclassified_fraction st / (sum_level d + unclassified_fraction st) - 100\<bar>
        \<le> real (length d) * (5 / 10 ^ 6)
    \<and> (sum_level d + unclassified_fraction st = 100 \<longrightarrow>
         \<bar>sum_list (row_values (level_rows (unclassified_fraction st) d))
            + unclassified_fraction st - 100\<bar> \<le> real (length d) * (5 / 10 ^ 6)))
   \<and> (read_sgb2gtdb Map.empty tbl = Inr sgb2gtdb
      \<and> gtdb_lines flt sgb2gtdb gtdb_init lines = Inr gst
      \<and> get_gtdb_profile flt tbl lines = Inr outp
      \<and> g \<in> set (gtdb_aggregate (abundances gst)) \<and> g \<noteq> [] \<longrightarrow>
    total4level g \<noteq> 0
    \<and> set (gtdb_level_rows g) \<subseteq> set outp
    \<and> sum_list (row_values (gtdb_level_rows g)) = 100)"
proof (intro conjI impI)
  assume a: "process_lines flt oct init_state lines = Inr st
      \<and> fix_relab_mpa4 flt oct lines False = Inr outp
      \<and> d \<in> set (assign_higher_taxonomic_levels (taxa_levs st)) \<and> d \<noteq> []"
  then have p: "process_lines flt oct init_state lines = Inr st"
    and r: "fix_relab_mpa4 flt oct lines False = Inr outp"
    and dm: "d \<in> set (assign_higher_taxonomic_levels (taxa_levs st))" and ne: "d \<noteq> []"
    by simp_all
  note o = fix_relab_not_merged_output(1)[OF p r] and z = fix_relab_not_merged_output(2)[OF p r]
  from z dm ne show nz: "sum_level d + unclassified_fraction st \<noteq> 0" by blast
  have "set (level_rows (unclassified_fraction st) d)
      \<subseteq> set (concat (map (level_rows (unclassified_fraction st))
                 (assign_higher_taxonomic_levels (taxa_levs st))))"
    using dm by auto
  then show "set (level_rows (unclassified_fraction st) d) \<subseteq> set outp"
    unfolding o set_append by (rule le_supI2)
  from level_rows_conservation[OF nz]
  show c: "\<bar>sum_list (row_values (level_rows (unclassified_fraction st) d))
         + 100 * unclassified_fraction st / (sum_level d + unclassified_fraction st) - 100\<bar>
        \<le> real (length d) * (5 / 10 ^ 6)" .
  assume "sum_level d + unclassified_fraction st = 100"
  with c show "\<bar>sum_list (row_values (level_rows (unclassified_fraction st) d))
            + unclassified_fraction st - 100\<bar> \<le> real (length d) * (5 / 10 ^ 6)"
    by simp
next
  assume a: "read_sgb2gtdb Map.empty tbl = Inr sgb2gtdb
      \<and> gtdb_lines flt sgb2gtdb gtdb_init lines = Inr gst
      \<and> get_gtdb_profile flt tbl lines = Inr outp
      \<and> g \<in> set (gtdb_aggregate (abundances gst)) \<and> g \<noteq> []"
  then have t: "read_sgb2gtdb Map.empty tbl = Inr sgb2gtdb"
    and p: "gtdb_lines flt sgb2gtdb gtdb_init lines = Inr gst"
    and r: "get_gtdb_profile flt tbl lines = Inr outp"
    and gm: "g \<in> set (gtdb_aggregate (abundances gst))" and ne: "g \<noteq> []"
    by simp_all
  note o = get_gtdb_profile_output(1)[OF t p r] and z = get_gtdb_profile_output(2)[OF t p r]
  from z gm ne show nz: "total4level g \<noteq> 0" by blast
  have "set (gtdb_level_rows g) \<subseteq> set (concat (map gtdb_level_rows (gtdb_aggregate (abundances gst))))"
    using gm by auto
  then show "set (gtdb_level_rows g) \<subseteq> set outp"
    unfolding o set_append by (rule le_supI2)
  from gtdb_level_rows_sum[OF nz] show "sum_list (row_values (gtdb_level_rows g)) = 100" .
qed

text \<open>
  The theorem for C1 at the end-to-end scenario, where the domain table and the
  unclassified fraction add up to 100, and at the cross-nomenclature run.
\<close>

theorem renormalised_rows_sum_witness:
  "process_lines float_dec Map.empty init_state scenario_input = Inr scenario_state
   \<and> fix_relab_mpa4 float_dec Map.empty scenario_input False = Inr scenario_output
   \<and> \<bar>sum_list (row_values (level_rows 5 [(''d__Bacteria'', Cell ''2'' 95 '''')])) + 5 - 100\<bar>
        \<le> 1 * (5 / 10 ^ 6)
   \<and> get_gtdb_profile float_dec gtdb_scenario_table gtdb_scenario_input = Inr gtdb_scenario_output
   \<and> sum_list (row_values (gtdb_level_rows [(''d__A'', 95)])) = 100"
proof -
  let ?d = "[(''d__Bacteria'', Cell ''2'' 95 '''')]"
  have u: "unclassified_fraction scenario_state = 5" by (simp add: scenario_state_def)
  have s: "sum_level ?d + unclassified_fraction scenario_state = 100"
    by (simp add: sum_level_def u)
  have ne: "?d \<noteq> []" by simp
  from renormalised_rows_sum[THEN conjunct1, rule_format,
      OF conjI[OF scenario_load conjI[OF scenario_run conjI[OF scenario_levels_first ne]]]]
  have "sum_level ?d + unclassified_fraction scenario_state = 100 \<longrightarrow>
         \<bar>sum_list (row_values (level_rows (unclassified_fraction scenario_state) ?d))
            + unclassified_fraction scenario_state - 100\<bar> \<le> real (length ?d) * (5 / 10 ^ 6)"
    by (elim conjE)
  with s have 1: "\<bar>sum_list (row_values (level_rows 5 ?d)) + 5 - 100\<bar> \<le> 1 * (5 / 10 ^ 6)"
    by (simp add: u)
  have ng: "[(''d__A'', 95::real)] \<noteq> []" by simp
  from renormalised_rows_sum[THEN conjunct2, rule_format,
      OF conjI[OF gtdb_scenario_read conjI[OF gtdb_scenario_load_state
          conjI[OF gtdb_scenario_run conjI[OF gtdb_scenario_levels_first ng]]]]]
  have 2: "sum_list (row_values (gtdb_level_rows [(''d__A'', 95)])) = 100"
    by (elim conjE)
  from 1 2 scenario_load scenario_run gtdb_scenario_run show ?thesis by simp
qed

text \<open>
  C1 as stated fails. With an unclassified row of 25.0 and one data row of 25.0 the
  profile-repair pipeline writes 50.0 at every rank, and 50 + 25 is not 100. The
  cross-nomenclature pipeline writes 100.0 at every rank beside an unclassified
  percentage of 5.0.
\<close>

theorem output_plus_unclassified_not_100:
  "fix_relab_mpa4 float_dec Map.empty quarter_input False = Inr quarter_output
   \<and> row_values quarter_output = [50, 50, 50, 50, 50, 50, 50, 50]
   \<and> \<not> \<bar>(50::real) + 25 - 100\<bar> \<le> 1 / 10 ^ 4
   \<and> get_gtdb_profile float_dec gtdb_scenario_table gtdb_scenario_input = Inr gtdb_scenario_output
   \<and> row_values gtdb_scenario_output = [100, 100, 100, 100, 100, 100, 100]
   \<and> GUncl 5 \<in> set gtdb_scenario_output
   \<and> \<not> \<bar>(100::real) + 5 - 100\<bar> \<le> 1 / 10 ^ 4"
  by (simp add: quarter_run gtdb_scenario_run)
     (simp add: quarter_output_def gtdb_scenario_output_def row_values_def)



text \<open>
  C6, as the code behaves, in exact arithmetic. The non-merged profile-repair pipeline
  writes, for every entry of every aggregated table, a row whose abundance is
  \<open>round(100 * value / (sum of the table + unclassified fraction), 5)\<close>, and no other
  taxon row. The cross-nomenclature pipeline writes for every entry of every table a row
  whose abundance is \<open>value * 100 / sum of the table\<close>, not rounded, and no other taxon
  row.
\<close>

theorem row_values_written:
  "(process_lines flt oct init_state lines = Inr st
      \<and> fix_relab_mpa4 flt oct lines False = Inr outp \<longrightarrow>
    set outp = set (concat (map written_while_reading lines)) \<union>
      {Row tax (cname c)
           (py_round (100 * cval c / (sum_level d + unclassified_fraction st)) 5) (cextra c)
       | d tax c. d \<in> set (assign_higher_taxonomic_levels (taxa_levs st)) \<and> (tax, c) \<in> set d})
   \<and> (read_sgb2gtdb Map.empty tbl = Inr sgb2gtdb
      \<and> gtdb_lines flt sgb2gtdb gtdb_init lines = Inr gst
      \<and> get_gtdb_profile flt tbl lines = Inr outp \<longrightarrow>
    set outp = set (concat (map (gtdb_written_while_reading flt) lines)) \<union>
      {GRow tax (v * 100 / total4level d)
       | d tax v. d \<in> set (gtdb_aggregate (abundances gst)) \<and> (tax, v) \<in> set d})"
proof (intro conjI impI)
  assume a: "process_lines flt oct init_state lines = Inr st
      \<and> fix_relab_mpa4 flt oct lines False = Inr outp"
  from a fix_relab_not_merged_output(1)[of flt oct lines st outp] set_level_rows
  show "set outp = set (concat (map written_while_reading lines)) \<union>
      {Row tax (cname c)
           (py_round (100 * cval c / (sum_level d + unclassified_fraction st)) 5) (cextra c)
       | d tax c. d \<in> set (assign_higher_taxonomic_levels (taxa_levs st)) \<and> (tax, c) \<in> set d}"
    by simp
next
  assume a: "read_sgb2gtdb Map.empty tbl = Inr sgb2gtdb
      \<and> gtdb_lines flt sgb2gtdb gtdb_init lines = Inr gst
      \<and> get_gtdb_profile flt tbl lines = Inr outp"
  from a get_gtdb_profile_output(1)[of tbl sgb2gtdb flt lines gst outp] set_gtdb_level_rows
  show "set outp = set (concat (map (gtdb_written_while_reading flt) lines)) \<union>
      {GRow tax (v * 100 / total4level d)
       | d tax v. d \<in> set (gtdb_aggregate (abundances gst)) \<and> (tax, v) \<in> set d}"
    by simp
qed

text \<open>
  The theorem for C6 at the end-to-end scenario and at the profile with two species of
  one genus: the domain row of the first is rounded, the species rows of the second are
  quotients.
\<close>

theorem row_values_written_witness:
  "process_lines float_dec Map.empty init_state scenario_input = Inr scenario_state
   \<and> fix_relab_mpa4 float_dec Map.empty scenario_input False = Inr scenario_output
   \<and> Row ''d__Bacteria'' ''2'' (py_round (100 * 95 / (95 + 5)) 5) '''' \<in> set scenario_output
   \<and> get_gtdb_profile float_dec dyadic_table dyadic_input = Inr dyadic_output
   \<and> GRow ''d__A;p__B;c__C;o__D;f__E;g__F;s__G1''
        (625 / 10000 * 100 / (625 / 10000 + 639375 / 10000)) \<in> set dyadic_output"
proof -
  let ?d = "[(''d__Bacteria'', Cell ''2'' 95 '''')]"
  let ?c = "Cell ''2'' 95 ''''"
  note eq1 = row_values_written[THEN conjunct1, rule_format, OF conjI[OF scenario_load scenario_run]]
  have "Row ''d__Bacteria'' (cname ?c)
          (py_round (100 * cval ?c / (sum_level ?d + unclassified_fraction scenario_state)) 5)
          (cextra ?c)
        \<in> {Row tax (cname c)
             (py_round (100 * cval c / (sum_level d + unclassified_fraction scenario_state)) 5) (cextra c)
           | d tax c. d \<in> set (assign_higher_taxonomic_levels (taxa_levs scenario_state))
               \<and> (tax, c) \<in> set d}"
    by (intro CollectI exI[of _ ?d] exI[of _ "''d__Bacteria''"] exI[of _ ?c] conjI refl
        scenario_levels_first) simp
  then have "Row ''d__Bacteria'' (cname ?c)
          (py_round (100 * cval ?c / (sum_level ?d + unclassified_fraction scenario_state)) 5)
          (cextra ?c) \<in> set scenario_output"
    unfolding eq1 by (rule UnI2)
  then have 1: "Row ''d__Bacteria'' ''2'' (py_round (100 * 95 / (95 + 5)) 5) '''' \<in> set scenario_output"
    by (simp add: sum_level_def scenario_state_def)
  let ?g = "[(''d__A;p__B;c__C;o__D;f__E;g__F;s__G1'', 625 / 10000),
             (''d__A;p__B;c__C;o__D;f__E;g__F;s__G2'', 639375 / 10000 :: real)]"
  note eq2 = row_values_written[THEN conjunct2, rule_format,
        OF conjI[OF dyadic_read conjI[OF dyadic_load_state dyadic_run]]]
  have "GRow ''d__A;p__B;c__C;o__D;f__E;g__F;s__G1'' (625 / 10000 * 100 / total4level ?g)
        \<in> {GRow tax (v * 100 / total4level d)
           | d tax v. d \<in> set (gtdb_aggregate (abundances dyadic_state)) \<and> (tax, v) \<in> set d}"
    by (intro CollectI exI[of _ ?g] exI[of _ "''d__A;p__B;c__C;o__D;f__E;g__F;s__G1''"]
        exI[of _ "625 / 10000 :: real"] conjI refl dyadic_levels_last) simp
  then have "GRow ''d__A;p__B;c__C;o__D;f__E;g__F;s__G1'' (625 / 10000 * 100 / total4level ?g)
      \<in> set dyadic_output"
    unfolding eq2 by (rule UnI2)
  then have 2: "GRow ''d__A;p__B;c__C;o__D;f__E;g__F;s__G1''
        (625 / 10000 * 100 / (625 / 10000 + 639375 / 10000)) \<in> set dyadic_output"
    by (simp add: total4level_def)
  from 1 2 scenario_load scenario_run dyadic_run show ?thesis by simp
qed

text \<open>
  C6 as stated fails for the cross-nomenclature pipeline: the species of abundance 0.0625
  out of 64 gets the row value 0.09765625, the quotient, where
  \<open>round(100 * 0.0625 / 64, 5)\<close> is 0.09766. It fails for the merged profile-repair
  pipeline as well: the phylum of the merged profile with one lineage has the aggregated
  value 25 and the total 25 + 25, and its row is written with 100.0, where
  \<open>round(100 * 25 / 50, 5)\<close> is 50.0; the parent and the child share one list (line 90),
  which lines 174 to 176 renormalise once for each of them.
\<close>

theorem written_value_not_rounded_quotient:
  "map_sum id (row_value ''d__A;p__B;c__C;o__D;f__E;g__F;s__G1'')
       (get_gtdb_profile float_dec dyadic_table dyadic_input)
     = Inr (Some (9765625 / 100000000))
   \<and> py_round (100 * (625 / 10000) / (625 / 10000 + 639375 / 10000)) 5 = 9766 / 100000
   \<and> (9765625 / 100000000 :: real) \<noteq> 9766 / 100000
   \<and> map_sum id (merged_row ''k__B|p__P'')
       (fix_relab_mpa4 float_dec Map.empty merged_quarter_input True)
     = Inr (Some [Fin 100])
   \<and> py_round (100 * 25 / (25 + 25)) 5 = 50"
proof -
  have 1: "map_sum id (row_value ''d__A;p__B;c__C;o__D;f__E;g__F;s__G1'')
       (get_gtdb_profile float_dec dyadic_table dyadic_input)
     = Inr (Some (9765625 / 100000000))"
    by (simp add: dyadic_run) (simp add: dyadic_output_def)
  have 2: "py_round (100 * (625 / 10000) / (625 / 10000 + 639375 / 10000)) 5 = 9766 / 100000"
    using py_round_dyadic by simp
  have 3: "map_sum id (merged_row ''k__B|p__P'')
       (fix_relab_mpa4 float_dec Map.empty merged_quarter_input True)
     = Inr (Some [Fin 100])"
    by (simp add: merged_shared_cell_renormalised_at_every_rank)
       (simp add: merged_quarter_output_def)
  have 4: "py_round (100 * 25 / (25 + 25)) 5 = 50"
    using py_round_50 by simp
  from 1 2 3 4 show ?thesis by simp
qed

text \<open>
  C5, as the code behaves. In both pipelines the tables are written in the order of
  their index, and the table at an index holds the parent lineages of the table at the
  next index: the profile-repair pipeline, in both of its modes, writes its eight tables
  from the domain to the leaves, and the cross-nomenclature pipeline writes its seven
  tables from the domain to the species as well. Within a table the rows follow the order
  of insertion.
\<close>

theorem rows_written_shallowest_first:
  "(process_lines flt oct init_state lines = Inr st
      \<and> fix_relab_mpa4 flt oct lines False = Inr outp \<longrightarrow>
    row_lineages outp =
      concat (map (\<lambda>level. map fst (assign_higher_taxonomic_levels (taxa_levs st) ! level))
                [0, 1, 2, 3, 4, 5, 6, 7])
    \<and> (\<forall>level<7. fst ` set (assign_higher_taxonomic_levels (taxa_levs st) ! level)
          = higher_taxon ` fst ` set (assign_higher_taxonomic_levels (taxa_levs st) ! Suc level)))
   \<and> (process_lines_merged flt oct init_mstate lines = Inr mst
      \<and> assign_higher_taxonomic_levels_merged (heap mst, taxa_levs mst) = Inr ht
      \<and> fix_relab_mpa4 flt oct lines True = Inr outp \<longrightarrow>
    row_lineages outp =
      concat (map (\<lambda>level. map fst (snd ht ! level)) [0, 1, 2, 3, 4, 5, 6, 7])
    \<and> (\<forall>level<7. fst ` set (snd ht ! level) = higher_taxon ` fst ` set (snd ht ! Suc level)))
   \<and> (read_sgb2gtdb Map.empty tbl = Inr sgb2gtdb
      \<and> gtdb_lines flt sgb2gtdb gtdb_init lines = Inr gst
      \<and> get_gtdb_profile flt tbl lines = Inr outp \<longrightarrow>
    row_lineages outp =
      concat (map (\<lambda>level. map fst (gtdb_aggregate (abundances gst) ! level))
                [0, 1, 2, 3, 4, 5, 6])
    \<and> (\<forall>level<6. fst ` set (gtdb_aggregate (abundances gst) ! level)
          = gtdb_new_tax ` fst ` set (gtdb_aggregate (abundances gst) ! Suc level)))"
proof (intro conjI impI allI)
  assume a: "process_lines flt oct init_state lines = Inr st
      \<and> fix_relab_mpa4 flt oct lines False = Inr outp"
  then obtain L where L: "taxa_levs st = [[], [], [], [], [], [], [], L]"
    using process_lines_shape[of flt oct init_state lines st "[]"] by (auto simp: init_state_def)
  from a fix_relab_not_merged_output(1)[of flt oct lines st outp]
  have "row_lineages outp = concat (map (map fst) (assign_higher_taxonomic_levels (taxa_levs st)))"
    by (simp add: row_lineages_append row_lineages_written row_lineages_levels)
  then show "row_lineages outp =
      concat (map (\<lambda>level. map fst (assign_higher_taxonomic_levels (taxa_levs st) ! level))
                [0, 1, 2, 3, 4, 5, 6, 7])"
    by (simp add: L assign_higher_chain Let_def)
  fix level :: nat
  assume "level < 7"
  from assign_higher_keys[OF L this]
  show "fst ` set (assign_higher_taxonomic_levels (taxa_levs st) ! level)
          = higher_taxon ` fst ` set (assign_higher_taxonomic_levels (taxa_levs st) ! Suc level)" .
next
  assume a: "process_lines_merged flt oct init_mstate lines = Inr mst
      \<and> assign_higher_taxonomic_levels_merged (heap mst, taxa_levs mst) = Inr ht
      \<and> fix_relab_mpa4 flt oct lines True = Inr outp"
  then obtain L where L: "taxa_levs mst = [[], [], [], [], [], [], [], L]"
    using process_lines_merged_shape[of flt oct init_mstate lines mst "[]"]
    by (auto simp: init_mstate_def)
  from a have "assign_higher_taxonomic_levels_merged (heap mst, [[], [], [], [], [], [], [], L]) = Inr ht"
    by (simp add: L)
  from assign_merged_linked[OF this] have lk: "levels_linked 7 (snd ht)" .
  then have len: "length (snd ht) = 8" by (simp add: levels_linked_def)
  from a have "row_lineages outp = concat (map (map fst) (snd ht))"
    by (intro fix_relab_merged_lineages[of flt oct lines mst ht outp]) simp_all
  then show "row_lineages outp =
      concat (map (\<lambda>level. map fst (snd ht ! level)) [0, 1, 2, 3, 4, 5, 6, 7])"
    by (simp only: concat_eight[OF len])
  fix level :: nat
  assume "level < 7"
  with lk show "fst ` set (snd ht ! level) = higher_taxon ` fst ` set (snd ht ! Suc level)"
    by (simp add: levels_linked_def)
next
  assume a: "read_sgb2gtdb Map.empty tbl = Inr sgb2gtdb
      \<and> gtdb_lines flt sgb2gtdb gtdb_init lines = Inr gst
      \<and> get_gtdb_profile flt tbl lines = Inr outp"
  then obtain L where L: "abundances gst = [[], [], [], [], [], [], L]"
    using gtdb_lines_shape[of flt sgb2gtdb gtdb_init lines gst "[]"] by (auto simp: gtdb_init_def)
  from a get_gtdb_profile_output(1)[of tbl sgb2gtdb flt lines gst outp]
  have "row_lineages outp = concat (map (map fst) (gtdb_aggregate (abundances gst)))"
    by (simp add: row_lineages_append row_lineages_gtdb_written row_lineages_gtdb_levels)
  then show "row_lineages outp =
      concat (map (\<lambda>level. map fst (gtdb_aggregate (abundances gst) ! level))
                [0, 1, 2, 3, 4, 5, 6])"
    by (simp add: L gtdb_aggregate_chain Let_def)
  fix level :: nat
  assume "level < 6"
  from gtdb_aggregate_keys[OF L this]
  show "fst ` set (gtdb_aggregate (abundances gst) ! level)
          = gtdb_new_tax ` fst ` set (gtdb_aggregate (abundances gst) ! Suc level)" .
qed

text \<open>
  The theorem for C5 at three concrete profiles, one for each pipeline and mode: each
  run writes the domain row first and the deepest row last.
\<close>

theorem rows_written_shallowest_first_witness:
  "process_lines float_dec Map.empty init_state scenario_input = Inr scenario_state
   \<and> fix_relab_mpa4 float_dec Map.empty scenario_input False = Inr scenario_output
   \<and> row_lineages scenario_output = concat (map (map fst) scenario_levels)
   \<and> hd (row_lineages scenario_output) = ''d__Bacteria''
   \<and> fix_relab_mpa4 float_dec Map.empty merged_quarter_input True = Inr merged_quarter_output
   \<and> row_lineages merged_quarter_output =
       [''k__B'', ''k__B|p__P'', ''k__B|p__P|c__C'', ''k__B|p__P|c__C|o__O'',
        ''k__B|p__P|c__C|o__O|f__F'', ''k__B|p__P|c__C|o__O|f__F|g__G'',
        ''k__B|p__P|c__C|o__O|f__F|g__G|s__S'', ''k__B|p__P|c__C|o__O|f__F|g__G|s__S|t__SGB1'']
   \<and> get_gtdb_profile float_dec gtdb_scenario_table gtdb_scenario_input = Inr gtdb_scenario_output
   \<and> row_lineages gtdb_scenario_output = concat (map (map fst) gtdb_scenario_levels)
   \<and> hd (row_lineages gtdb_scenario_output) = ''d__A''"
proof -
  have 1: "row_lineages scenario_output = concat (map (map fst) scenario_levels)"
    using rows_written_shallowest_first[THEN conjunct1, rule_format,
        OF conjI[OF scenario_load scenario_run], THEN conjunct1]
    by (simp add: scenario_levels_eval) (simp add: scenario_levels_def)
  have m: "assign_higher_taxonomic_levels_merged
     (heap \<lparr>release = Some ''mpa_vJun23_CHOCOPhlAnSGB_202307'', unclassified_fraction = Some [25],
          taxa_levs = [[], [], [], [], [], [], [],
            [(''k__B|p__P|c__C|o__O|f__F|g__G|s__S|t__SGB1'', 0)]],
          out = take 2 merged_quarter_output, ncols = Some 1, heap = [[25]]\<rparr>,
      taxa_levs \<lparr>release = Some ''mpa_vJun23_CHOCOPhlAnSGB_202307'', unclassified_fraction = Some [25],
          taxa_levs = [[], [], [], [], [], [], [],
            [(''k__B|p__P|c__C|o__O|f__F|g__G|s__S|t__SGB1'', 0)]],
          out = take 2 merged_quarter_output, ncols = Some 1, heap = [[25]]\<rparr>)
   = Inr ([[25]],
       [[(''k__B'', 0)],
        [(''k__B|p__P'', 0)],
        [(''k__B|p__P|c__C'', 0)],
        [(''k__B|p__P|c__C|o__O'', 0)],
        [(''k__B|p__P|c__C|o__O|f__F'', 0)],
        [(''k__B|p__P|c__C|o__O|f__F|g__G'', 0)],
        [(''k__B|p__P|c__C|o__O|f__F|g__G|s__S'', 0)],
        [(''k__B|p__P|c__C|o__O|f__F|g__G|s__S|t__SGB1'', 0)]])"
    using merged_quarter_assign by simp
  have 5: "row_lineages merged_quarter_output =
       [''k__B'', ''k__B|p__P'', ''k__B|p__P|c__C'', ''k__B|p__P|c__C|o__O'',
        ''k__B|p__P|c__C|o__O|f__F'', ''k__B|p__P|c__C|o__O|f__F|g__G'',
        ''k__B|p__P|c__C|o__O|f__F|g__G|s__S'', ''k__B|p__P|c__C|o__O|f__F|g__G|s__S|t__SGB1'']"
    using rows_written_shallowest_first[THEN conjunct2, THEN conjunct1, rule_format,
        OF conjI[OF merged_quarter_load
             conjI[OF m merged_shared_cell_renormalised_at_every_rank]], THEN conjunct1]
    by simp
  have 2: "row_lineages gtdb_scenario_output = concat (map (map fst) gtdb_scenario_levels)"
    using rows_written_shallowest_first[THEN conjunct2, THEN conjunct2, rule_format,
        OF conjI[OF gtdb_scenario_read conjI[OF gtdb_scenario_load_state gtdb_scenario_run]],
        THEN conjunct1]
    by (simp add: gtdb_scenario_levels_eval) (simp add: gtdb_scenario_levels_def)
  have 3: "hd (concat (map (map fst) scenario_levels)) = ''d__Bacteria''"
    by (simp add: scenario_levels_def)
  have 4: "hd (concat (map (map fst) gtdb_scenario_levels)) = ''d__A''"
    by (simp add: gtdb_scenario_levels_def)
  from 1 2 3 4 5 scenario_load scenario_run gtdb_scenario_run
    merged_shared_cell_renormalised_at_every_rank
  show ?thesis by simp
qed

text \<open>
  C5 as stated fails for the cross-nomenclature pipeline: the first taxon row of its
  output is the domain row and the last is the species row.
\<close>

theorem gtdb_rows_not_deepest_first:
  "map_sum id row_lineages (get_gtdb_profile float_dec gtdb_scenario_table gtdb_scenario_input)
     = Inr [''d__A'', ''d__A;p__B'', ''d__A;p__B;c__C'', ''d__A;p__B;c__C;o__D'',
            ''d__A;p__B;c__C;o__D;f__E'', ''d__A;p__B;c__C;o__D;f__E;g__F'',
            ''d__A;p__B;c__C;o__D;f__E;g__F;s__G'']"
  by (simp add: gtdb_scenario_run) (simp add: gtdb_scenario_output_def row_lineages_def)

end
